theory Spec2Isabelle
  imports Main
begin

section \<open>Python values\<close>

text \<open>
  A Python \<open>str\<close> is a sequence of Unicode code points, and slicing and \<open>len\<close> count
  code points. A string is therefore a list of code points (natural numbers), not a list
  of bytes. \<open>asc\<close> turns an ASCII literal into such a string.
\<close>

type_synonym pystr = "nat list"

definition asc :: "string \<Rightarrow> pystr" where
  "asc s = map of_char s"

text \<open>
  The values that \<open>response.json()\<close> and the configuration hand to the program: \<open>None\<close>,
  booleans, integers, strings, lists and dictionaries with string keys. A dictionary is an
  association list in insertion order; lookup takes the first binding of a key (a parsed
  JSON object has each key once). Non-integral JSON numbers are not part of the model.
\<close>

datatype pyval =
    PNone
  | PBool bool
  | PInt int
  | PStr pystr
  | PList "pyval list"
  | PDict "(pystr \<times> pyval) list"

text \<open>The exceptions that the modelled code can meet.\<close>

datatype exn =
    KeyError pyval
  | TypeError
  | IndexError
  | AttributeError
  | RequestException
  | JSONDecodeError

text \<open>Truthiness, as \<open>if x\<close>, \<open>not x\<close> and \<open>x or y\<close> test it.\<close>

fun py_truthy :: "pyval \<Rightarrow> bool" where
  "py_truthy PNone = False"
| "py_truthy (PBool b) = b"
| "py_truthy (PInt n) = (n \<noteq> 0)"
| "py_truthy (PStr s) = (s \<noteq> [])"
| "py_truthy (PList xs) = (xs \<noteq> [])"
| "py_truthy (PDict kvs) = (kvs \<noteq> [])"

definition py_or :: "pyval \<Rightarrow> pyval \<Rightarrow> pyval" where
  "py_or a b = (if py_truthy a then a else b)"

text \<open>\<open>x[k]\<close> with a string key \<open>k\<close>: only a dictionary accepts it.\<close>

fun getitem_str :: "pyval \<Rightarrow> pystr \<Rightarrow> exn + pyval" where
  "getitem_str (PDict kvs) k =
     (case map_of kvs k of None \<Rightarrow> Inl (KeyError (PStr k)) | Some v \<Rightarrow> Inr v)"
| "getitem_str _ k = Inl TypeError"

text \<open>
  \<open>x[i]\<close> with an integer \<open>i\<close>: lists and strings index from the end when \<open>i\<close> is
  negative and raise IndexError out of range; a dictionary with string keys has no
  integer key.
\<close>

definition index_list :: "'a list \<Rightarrow> int \<Rightarrow> exn + 'a" where
  "index_list xs i =
     (if 0 \<le> i \<and> i < int (length xs) then Inr (xs ! nat i)
      else if i < 0 \<and> - int (length xs) \<le> i then Inr (xs ! nat (int (length xs) + i))
      else Inl IndexError)"

fun getitem_int :: "pyval \<Rightarrow> int \<Rightarrow> exn + pyval" where
  "getitem_int (PList xs) i = index_list xs i"
| "getitem_int (PStr s) i =
     (case index_list s i of Inl e \<Rightarrow> Inl e | Inr c \<Rightarrow> Inr (PStr [c]))"
| "getitem_int (PDict kvs) i = Inl (KeyError (PInt i))"
| "getitem_int _ i = Inl TypeError"

text \<open>Iteration (\<open>for x in v\<close>, \<open>enumerate(v)\<close>): a dictionary yields its keys.\<close>

fun py_iter :: "pyval \<Rightarrow> exn + pyval list" where
  "py_iter (PList xs) = Inr xs"
| "py_iter (PDict kvs) = Inr (map (\<lambda>kv. PStr (fst kv)) kvs)"
| "py_iter (PStr s) = Inr (map (\<lambda>c. PStr [c]) s)"
| "py_iter _ = Inl TypeError"

text \<open>
  \<open>k in v\<close> for a string \<open>k\<close>: key membership in a dictionary, element membership in a
  list, substring test in a string, TypeError for anything else.
\<close>

fun starts_with :: "'a list \<Rightarrow> 'a list \<Rightarrow> bool" where
  "starts_with [] ys = True"
| "starts_with (x # xs) [] = False"
| "starts_with (x # xs) (y # ys) = (x = y \<and> starts_with xs ys)"

fun substring :: "'a list \<Rightarrow> 'a list \<Rightarrow> bool" where
  "substring xs [] = (xs = [])"
| "substring xs (y # ys) = (starts_with xs (y # ys) \<or> substring xs ys)"

fun str_in :: "pystr \<Rightarrow> pyval \<Rightarrow> exn + bool" where
  "str_in k (PDict kvs) = Inr (k \<in> set (map fst kvs))"
| "str_in k (PList xs) = Inr (PStr k \<in> set xs)"
| "str_in k (PStr s) = Inr (substring k s)"
| "str_in k _ = Inl TypeError"

text \<open>
  Slices \<open>xs[lo:hi]\<close> with step 1: an absent bound is the end of the sequence, a negative
  bound counts from the end, and every bound is clamped into range. A slice never raises.
\<close>

definition slice_index :: "nat \<Rightarrow> int \<Rightarrow> nat" where
  "slice_index n i = (if i < 0 then nat (max 0 (int n + i)) else min n (nat i))"

definition py_slice :: "int option \<Rightarrow> int option \<Rightarrow> 'a list \<Rightarrow> 'a list" where
  "py_slice lo hi xs =
     (let n = length xs;
          a = (case lo of None \<Rightarrow> 0 | Some i \<Rightarrow> slice_index n i);
          b = (case hi of None \<Rightarrow> n | Some j \<Rightarrow> slice_index n j)
      in take (b - a) (drop a xs))"

text \<open>
  Library functions whose exact result depends on the Unicode tables or on the formatting
  rules of the standard library are parameters of the model: \<open>str.lower\<close>, \<open>str.strip\<close>,
  \<open>str()\<close> of a list or a dictionary, and \<open>json.dumps(v, indent=2, ensure_ascii=False)\<close>.
\<close>

record pylib =
  py_lower :: "pystr \<Rightarrow> pystr"
  py_strip :: "pystr \<Rightarrow> pystr"
  py_repr :: "pyval \<Rightarrow> pystr"
  json_dumps :: "pyval \<Rightarrow> pystr"

text \<open>Decimal digits of a natural number, and \<open>str()\<close> as an f-string applies it.\<close>

fun digits :: "nat \<Rightarrow> pystr" where
  "digits n = (if n < 10 then [48 + n] else digits (n div 10) @ [48 + n mod 10])"

definition str_of_int :: "int \<Rightarrow> pystr" where
  "str_of_int i = (if i < 0 then 45 # digits (nat (- i)) else digits (nat i))"

fun py_str :: "pylib \<Rightarrow> pyval \<Rightarrow> pystr" where
  "py_str lib PNone = asc ''None''"
| "py_str lib (PBool b) = (if b then asc ''True'' else asc ''False'')"
| "py_str lib (PInt i) = str_of_int i"
| "py_str lib (PStr s) = s"
| "py_str lib v = py_repr lib v"

section \<open>The sign-in session (class SignIn of app.py)\<close>

text \<open>
  \<open>__hide_refresh_token\<close>:
  \<open>refresh_token[:4] + '*' * len(refresh_token[4:-4]) + refresh_token[-4:]\<close>.
  The source wraps the expression in \<open>try ... except IndexError: return refresh_token\<close>;
  slicing, \<open>len\<close>, \<open>*\<close> and \<open>+\<close> on strings raise no IndexError, so the handler never runs
  and the function is the expression alone.
\<close>

definition hide_refresh_token :: "pystr \<Rightarrow> pystr" where
  "hide_refresh_token tok =
     py_slice None (Some 4) tok
     @ replicate (length (py_slice (Some 4) (Some (- 4)) tok)) 42
     @ py_slice (Some (- 4)) None tok"

text \<open>
  The remote side. A request is what \<open>requests.post\<close> is given; a response carries the
  status code, the outcome of \<open>.json()\<close> (which raises on a body that is not JSON) and
  the body text. The world answers a request from the history of earlier requests, may
  raise instead of answering, and records every request made.
\<close>

record http_request =
  url :: pystr
  req_headers :: pyval
  req_json :: pyval
  req_proxies :: pyval
  req_timeout :: pyval

record http_response =
  status_code :: int
  json_body :: "exn + pyval"
  resp_text :: pystr

record world =
  net :: "http_request list \<Rightarrow> http_request \<Rightarrow> exn + http_response"
  calls :: "http_request list"

definition post :: "http_request \<Rightarrow> world \<Rightarrow> (exn + http_response) \<times> world" where
  "post req w = (net w (calls w) req, w\<lparr>calls := calls w @ [req]\<rparr>)"

text \<open>Sequencing of steps that may raise.\<close>

fun bind_exn :: "exn + 'a \<Rightarrow> ('a \<Rightarrow> exn + 'b) \<Rightarrow> exn + 'b" where
  "bind_exn (Inl e) f = Inl e"
| "bind_exn (Inr x) f = f x"

text \<open>
  The fields of a \<open>SignIn\<close> object. The stored configuration is never read by the class
  and is left out; logging calls have no effect on the control flow and are left out too.
\<close>

record SignIn =
  self_refresh_token :: pystr
  self_hide_refresh_token :: pystr
  self_access_token :: pyval
  self_new_refresh_token :: pyval
  self_phone :: pyval
  self_signin_count :: pyval
  self_signin_reward :: pyval
  self_error :: pyval

definition init :: "pystr \<Rightarrow> SignIn" where
  "init tok =
     \<lparr>self_refresh_token = tok,
      self_hide_refresh_token = hide_refresh_token tok,
      self_access_token = PNone,
      self_new_refresh_token = PNone,
      self_phone = PNone,
      self_signin_count = PInt 0,
      self_signin_reward = PNone,
      self_error = PNone\<rparr>"

subsection \<open>\<open>__get_access_token\<close>\<close>

definition token_request :: "pystr \<Rightarrow> http_request" where
  "token_request tok =
     \<lparr>url = asc ''https://auth.aliyundrive.com/v2/account/token'',
      req_headers = PNone,
      req_json = PDict [(asc ''grant_type'', PStr (asc ''refresh_token'')),
                        (asc ''refresh_token'', PStr tok)],
      req_proxies = PNone,
      req_timeout = PNone\<rparr>"

text \<open>
  The \<open>try\<close> block: \<open>data['code'] in [...]\<close>. A KeyError is swallowed (\<open>pass\<close>), any other
  exception of the subscript escapes.
\<close>

definition code_rejected :: "pyval \<Rightarrow> exn + bool" where
  "code_rejected data =
     (case getitem_str data (asc ''code'') of
        Inl (KeyError k) \<Rightarrow> Inr False
      | Inl e \<Rightarrow> Inl e
      | Inr c \<Rightarrow> Inr (c = PStr (asc ''RefreshTokenExpired'')
                     \<or> c = PStr (asc ''InvalidParameter.RefreshToken'')))"

definition read_token :: "pyval \<Rightarrow> SignIn \<Rightarrow> exn + bool \<times> SignIn" where
  "read_token data self =
     bind_exn (code_rejected data) (\<lambda>rejected.
       if rejected then Inr (False, self\<lparr>self_error := data\<rparr>)
       else
         bind_exn (getitem_str data (asc ''access_token'')) (\<lambda>a.
         bind_exn (getitem_str data (asc ''refresh_token'')) (\<lambda>r.
         bind_exn (getitem_str data (asc ''user_name'')) (\<lambda>u.
           Inr (True, self\<lparr>self_access_token := a,
                           self_new_refresh_token := r,
                           self_phone := u\<rparr>)))))"

definition get_access_token :: "SignIn \<Rightarrow> world \<Rightarrow> (exn + bool \<times> SignIn) \<times> world" where
  "get_access_token self w =
     (case post (token_request (self_refresh_token self)) w of
        (Inl e, w') \<Rightarrow> (Inl e, w')
      | (Inr resp, w') \<Rightarrow>
          (bind_exn (json_body resp) (\<lambda>data. read_token data self), w'))"

subsection \<open>\<open>__sign_in\<close>\<close>

definition sign_in_request :: "pylib \<Rightarrow> pyval \<Rightarrow> http_request" where
  "sign_in_request lib access_token =
     \<lparr>url = asc ''https://member.aliyundrive.com/v1/activity/sign_in_list'',
      req_headers =
        PDict [(asc ''Authorization'', PStr (asc ''Bearer '' @ py_str lib access_token))],
      req_json = PDict [],
      req_proxies = PNone,
      req_timeout = PNone\<rparr>"

text \<open>
  The loop \<open>for i, day in enumerate(logs)\<close>: at the first day whose status equals
  \<open>'miss'\<close> the current day becomes \<open>logs[i - 1]\<close> and the loop ends; when the loop runs
  out, \<open>current_day\<close> keeps its initial value \<open>None\<close>.
\<close>

fun find_current_day :: "pyval \<Rightarrow> nat \<Rightarrow> pyval list \<Rightarrow> exn + pyval" where
  "find_current_day logs i [] = Inr PNone"
| "find_current_day logs i (day # days) =
     bind_exn (getitem_str day (asc ''status'')) (\<lambda>status.
       if status = PStr (asc ''miss'') then getitem_int logs (int i - 1)
       else find_current_day logs (Suc i) days)"

definition lit_no_reward :: pystr where
  "lit_no_reward = [0x65E0, 0x5956, 0x52B1]"

definition lit_received :: pystr where
  "lit_received = [0x83B7, 0x5F97, 0x20]"

definition reward_text :: "pylib \<Rightarrow> pyval \<Rightarrow> exn + pystr" where
  "reward_text lib current_day =
     bind_exn (getitem_str current_day (asc ''isReward'')) (\<lambda>flag.
       if \<not> py_truthy flag then Inr lit_no_reward
       else
         bind_exn (getitem_str current_day (asc ''reward'')) (\<lambda>r1.
         bind_exn (getitem_str r1 (asc ''name'')) (\<lambda>name.
         bind_exn (getitem_str current_day (asc ''reward'')) (\<lambda>r2.
         bind_exn (getitem_str r2 (asc ''description'')) (\<lambda>description.
           Inr (lit_received @ py_str lib name @ asc '' '' @ py_str lib description))))))"

definition read_sign_in :: "pylib \<Rightarrow> pyval \<Rightarrow> SignIn \<Rightarrow> exn + SignIn" where
  "read_sign_in lib data self =
     bind_exn (str_in (asc ''success'') data) (\<lambda>present.
       if \<not> present then Inr (self\<lparr>self_error := data\<rparr>)
       else
         bind_exn (getitem_str data (asc ''result'')) (\<lambda>res.
         bind_exn (getitem_str res (asc ''signInLogs'')) (\<lambda>logs.
         bind_exn (py_iter logs) (\<lambda>days.
         bind_exn (find_current_day logs 0 days) (\<lambda>current_day.
         bind_exn (reward_text lib current_day) (\<lambda>reward.
         bind_exn (getitem_str data (asc ''result'')) (\<lambda>res'.
         bind_exn (getitem_str res' (asc ''signInCount'')) (\<lambda>n.
           Inr (self\<lparr>self_signin_count := n,
                     self_signin_reward := PStr reward\<rparr>)))))))))"

definition sign_in :: "pylib \<Rightarrow> SignIn \<Rightarrow> world \<Rightarrow> (exn + SignIn) \<times> world" where
  "sign_in lib self w =
     (case post (sign_in_request lib (self_access_token self)) w of
        (Inl e, w') \<Rightarrow> (Inl e, w')
      | (Inr resp, w') \<Rightarrow>
          (bind_exn (json_body resp) (\<lambda>data. read_sign_in lib data self), w'))"

subsection \<open>\<open>__generate_result\<close> and \<open>run\<close>\<close>

record result =
  res_success :: bool
  res_user :: pyval
  res_refresh_token :: pyval
  res_count :: pyval
  res_reward :: pyval
  res_text :: pystr
  res_text_html :: pystr

definition lit_signed_ok :: pystr where
  "lit_signed_ok =
     [0x20, 0x7B7E, 0x5230, 0x6210, 0x529F, 0x2C, 0x20,
      0x672C, 0x6708, 0x7D2F, 0x8BA1, 0x7B7E, 0x5230, 0x20]"

definition lit_days_this_time :: pystr where
  "lit_days_this_time = [0x20, 0x5929, 0x2E, 0x0A, 0x672C, 0x6B21, 0x7B7E, 0x5230]"

definition lit_failed :: pystr where
  "lit_failed = [0x20, 0x7B7E, 0x5230, 0x5931, 0x8D25, 0x0A]"

definition success_text :: "pylib \<Rightarrow> SignIn \<Rightarrow> pystr" where
  "success_text lib self =
     lit_signed_ok @ py_str lib (self_signin_count self)
     @ lit_days_this_time @ py_str lib (self_signin_reward self)"

definition generate_result :: "pylib \<Rightarrow> SignIn \<Rightarrow> result" where
  "generate_result lib self =
     (let user = py_or (self_phone self) (PStr (self_hide_refresh_token self));
          text =
            (if py_truthy (self_signin_count self)
             then asc ''['' @ py_str lib user @ asc '']'' @ success_text lib self
             else asc ''['' @ py_str lib user @ asc '']'' @ lit_failed
                  @ json_dumps lib (self_error self));
          text_html =
            (if py_truthy (self_signin_count self)
             then asc ''<code>'' @ py_str lib user @ asc ''</code>'' @ success_text lib self
             else asc ''<code>'' @ py_str lib user @ asc ''</code>'' @ lit_failed
                  @ asc ''<code>'' @ json_dumps lib (self_error self) @ asc ''</code>'')
      in \<lparr>res_success = (if py_truthy (self_signin_count self) then True else False),
          res_user = py_or (self_phone self) (PStr (self_hide_refresh_token self)),
          res_refresh_token =
            py_or (self_new_refresh_token self) (PStr (self_refresh_token self)),
          res_count = self_signin_count self,
          res_reward = self_signin_reward self,
          res_text = text,
          res_text_html = text_html\<rparr>)"

text \<open>\<open>run\<close> returns the result dictionary; the object keeps the state it reached.\<close>

definition run :: "pylib \<Rightarrow> SignIn \<Rightarrow> world \<Rightarrow> (exn + result \<times> SignIn) \<times> world" where
  "run lib self w =
     (case get_access_token self w of
        (Inl e, w1) \<Rightarrow> (Inl e, w1)
      | (Inr (ok, s1), w1) \<Rightarrow>
          if ok then
            (case sign_in lib s1 w1 of
               (Inl e, w2) \<Rightarrow> (Inl e, w2)
             | (Inr s2, w2) \<Rightarrow> (Inr (generate_result lib s2, s2), w2))
          else (Inr (generate_result lib s1, s1), w1))"

section \<open>Notification channels\<close>

text \<open>
  A channel module's \<open>push(config, content, content_html, title)\<close>: it may talk to the
  remote side, and it returns a value or raises.
\<close>

type_synonym pusher =
  "pyval \<Rightarrow> pystr \<Rightarrow> pystr \<Rightarrow> pyval \<Rightarrow> world \<Rightarrow> (exn + pyval) \<times> world"

subsection \<open>modules/telegram.py\<close>

record telegram_Pusher =
  tg_endpoint :: pyval
  tg_token :: pyval
  tg_chat_id :: pyval
  tg_proxy :: pyval

text \<open>
  The URL is \<open>self.endpoint + f'/bot{self.token}/sendMessage'\<close>: \<open>+\<close> with a string on the
  right raises TypeError unless the endpoint is a string.
\<close>

definition telegram_request ::
  "pylib \<Rightarrow> telegram_Pusher \<Rightarrow> pyval \<Rightarrow> pystr \<Rightarrow> exn + http_request" where
  "telegram_request lib self title content =
     (case tg_endpoint self of
        PStr e \<Rightarrow>
          Inr \<lparr>url = e @ asc ''/bot'' @ py_str lib (tg_token self) @ asc ''/sendMessage'',
               req_headers = PNone,
               req_json =
                 PDict [(asc ''chat_id'', tg_chat_id self),
                        (asc ''text'',
                         PStr (asc ''<b>'' @ py_str lib title @ asc ''</b>'' @ [10, 10] @ content)),
                        (asc ''parse_mode'', PStr (asc ''HTML''))],
               req_proxies =
                 (if py_truthy (tg_proxy self)
                  then PDict [(asc ''http'', tg_proxy self), (asc ''https'', tg_proxy self)]
                  else PNone),
               req_timeout = PInt 10\<rparr>
      | _ \<Rightarrow> Inl TypeError)"

definition telegram_send ::
  "pylib \<Rightarrow> telegram_Pusher \<Rightarrow> pyval \<Rightarrow> pystr \<Rightarrow> world \<Rightarrow> (exn + pyval) \<times> world" where
  "telegram_send lib self title content w =
     (case telegram_request lib self title content of
        Inl e \<Rightarrow> (Inl e, w)
      | Inr req \<Rightarrow>
          (case post req w of
             (Inl e, w') \<Rightarrow> (Inl e, w')
           | (Inr resp, w') \<Rightarrow>
               (if status_code resp = 200 then json_body resp else Inr PNone, w')))"

text \<open>
  The body of the \<open>try\<close> block of \<open>push\<close>: build the Pusher (four subscripts of the
  config) and send; the value of \<open>send\<close> only decides whether a success line is logged.
\<close>

definition telegram_try :: "pylib \<Rightarrow> pusher" where
  "telegram_try lib config content content_html title w =
     (case bind_exn (getitem_str config (asc ''telegram_endpoint'')) (\<lambda>e.
           bind_exn (getitem_str config (asc ''telegram_bot_token'')) (\<lambda>t.
           bind_exn (getitem_str config (asc ''telegram_chat_id'')) (\<lambda>c.
           bind_exn (getitem_str config (asc ''telegram_proxy'')) (\<lambda>p.
             Inr \<lparr>tg_endpoint = e, tg_token = t, tg_chat_id = c, tg_proxy = p\<rparr>)))) of
        Inl e \<Rightarrow> (Inl e, w)
      | Inr pusher \<Rightarrow> telegram_send lib pusher title content_html w)"

text \<open>
  The guard \<open>not a or not b or not c\<close> reads the three settings left to right and stops
  at the first falsy one; a missing key raises KeyError outside the \<open>try\<close> block.
\<close>

definition telegram_incomplete :: "pyval \<Rightarrow> exn + bool" where
  "telegram_incomplete config =
     bind_exn (getitem_str config (asc ''telegram_endpoint'')) (\<lambda>e.
       if \<not> py_truthy e then Inr True
       else bind_exn (getitem_str config (asc ''telegram_bot_token'')) (\<lambda>t.
         if \<not> py_truthy t then Inr True
         else bind_exn (getitem_str config (asc ''telegram_chat_id'')) (\<lambda>c.
           Inr (\<not> py_truthy c))))"

definition telegram_push :: "pylib \<Rightarrow> pusher" where
  "telegram_push lib config content content_html title w =
     (case telegram_incomplete config of
        Inl e \<Rightarrow> (Inl e, w)
      | Inr True \<Rightarrow> (Inr (PBool False), w)
      | Inr False \<Rightarrow>
          (case telegram_try lib config content content_html title w of
             (Inl e, w') \<Rightarrow> (Inr (PBool False), w')
           | (Inr v, w') \<Rightarrow> (Inr (PBool True), w')))"

subsection \<open>modules/pushplus.py\<close>

definition pushplus_request :: "pyval \<Rightarrow> pyval \<Rightarrow> pystr \<Rightarrow> http_request" where
  "pushplus_request token title content =
     \<lparr>url = asc ''http://www.pushplus.plus/send'',
      req_headers = PNone,
      req_json = PDict [(asc ''token'', token), (asc ''title'', title),
                        (asc ''content'', PStr content)],
      req_proxies = PNone,
      req_timeout = PNone\<rparr>"

definition pushplus_send :: "pyval \<Rightarrow> pyval \<Rightarrow> pystr \<Rightarrow> world \<Rightarrow> (exn + pyval) \<times> world" where
  "pushplus_send token title content w =
     (case post (pushplus_request token title content) w of
        (Inl e, w') \<Rightarrow> (Inl e, w')
      | (Inr resp, w') \<Rightarrow> (json_body resp, w'))"

definition pushplus_push :: pusher where
  "pushplus_push config content content_html title w =
     (case getitem_str config (asc ''pushplus_token'') of
        Inl e \<Rightarrow> (Inl e, w)
      | Inr token \<Rightarrow>
          if \<not> py_truthy token then (Inr (PBool False), w)
          else
            (case pushplus_send token title content w of
               (Inl e, w') \<Rightarrow> (Inr (PBool False), w')
             | (Inr v, w') \<Rightarrow> (Inr (PBool True), w')))"

section \<open>The dispatcher (function push of app.py)\<close>

text \<open>
  \<open>configured_push_types\<close>: the setting \<open>push_types\<close> is one string or an iterable; each
  item is lowered and stripped, and an item that is not a string has no \<open>lower\<close>.
\<close>

fun lower_strip_all :: "pylib \<Rightarrow> pyval list \<Rightarrow> exn + pystr list" where
  "lower_strip_all lib [] = Inr []"
| "lower_strip_all lib (PStr s # items) =
     bind_exn (lower_strip_all lib items) (\<lambda>rest. Inr (py_strip lib (py_lower lib s) # rest))"
| "lower_strip_all lib (v # items) = Inl AttributeError"

definition configured_push_types :: "pylib \<Rightarrow> pyval \<Rightarrow> exn + pystr list" where
  "configured_push_types lib config =
     bind_exn (getitem_str config (asc ''push_types'')) (\<lambda>pt.
     bind_exn (case pt of PStr s \<Rightarrow> Inr [pt] | _ \<Rightarrow> py_iter pt) (\<lambda>items.
       lower_strip_all lib items))"

text \<open>
  The modules dingtalk, serverchan, pushdeer and smtp are imported by app.py; their
  \<open>push\<close> functions are parameters here.
\<close>

record modules =
  dingtalk_push :: pusher
  serverchan_push :: pusher
  pushdeer_push :: pusher
  smtp_push :: pusher

text \<open>The dictionary literal of \<open>push\<close>, in its insertion order.\<close>

definition pushers :: "pylib \<Rightarrow> modules \<Rightarrow> (pystr \<times> pusher) list" where
  "pushers lib mods =
     [(asc ''dingtalk'', dingtalk_push mods),
      (asc ''serverchan'', serverchan_push mods),
      (asc ''pushdeer'', pushdeer_push mods),
      (asc ''telegram'', telegram_push lib),
      (asc ''pushplus'', pushplus_push),
      (asc ''smtp'', smtp_push mods)]"

text \<open>
  The loop over the dictionary's items. The source drops the value that each
  \<open>pusher.push\<close> returns; the loop of the model hands these values back, tagged with the
  channel name, so that what was called can be stated. An exception of a channel ends
  the loop.
\<close>

fun run_pushers ::
  "(pystr \<times> pusher) list \<Rightarrow> pystr list \<Rightarrow> pyval \<Rightarrow> pystr \<Rightarrow> pystr \<Rightarrow> pyval \<Rightarrow> world
   \<Rightarrow> (exn + (pystr \<times> pyval) list) \<times> world" where
  "run_pushers [] cs config content content_html title w = (Inr [], w)"
| "run_pushers ((push_type, p) # rest) cs config content content_html title w =
     (if push_type \<in> set cs then
        (case p config content content_html title w of
           (Inl e, w') \<Rightarrow> (Inl e, w')
         | (Inr v, w') \<Rightarrow>
             (case run_pushers rest cs config content content_html title w' of
                (Inl e, w'') \<Rightarrow> (Inl e, w'')
              | (Inr outs, w'') \<Rightarrow> (Inr ((push_type, v) # outs), w'')))
      else run_pushers rest cs config content content_html title w)"

text \<open>\<open>push\<close> itself returns \<open>None\<close>.\<close>

definition push ::
  "pylib \<Rightarrow> modules \<Rightarrow> pyval \<Rightarrow> pystr \<Rightarrow> pystr \<Rightarrow> pyval \<Rightarrow> world \<Rightarrow> (exn + pyval) \<times> world" where
  "push lib mods config content content_html title w =
     (case configured_push_types lib config of
        Inl e \<Rightarrow> (Inl e, w)
      | Inr cs \<Rightarrow>
          (case run_pushers (pushers lib mods) cs config content content_html title w of
             (Inl e, w') \<Rightarrow> (Inl e, w')
           | (Inr outs, w') \<Rightarrow> (Inr PNone, w')))"

section \<open>Predicates on sign-in responses\<close>

text \<open>
  A day of the month log counts as signed when it has a status other than \<open>'miss'\<close>,
  and as missed when its status is \<open>'miss'\<close>, the value that the loop compares with.
\<close>

definition signed_day :: "pyval \<Rightarrow> bool" where
  "signed_day d =
     (case getitem_str d (asc ''status'') of
        Inl e \<Rightarrow> False
      | Inr st \<Rightarrow> st \<noteq> PStr (asc ''miss''))"

definition missed_day :: "pyval \<Rightarrow> bool" where
  "missed_day d = (getitem_str d (asc ''status'') = Inr (PStr (asc ''miss'')))"

text \<open>
  A well-formed day has the fields that \<open>__sign_in\<close> reads: a status, a reward flag and,
  when the flag is truthy, a reward with a name and a description.
\<close>

definition has_key :: "pyval \<Rightarrow> pystr \<Rightarrow> bool" where
  "has_key v k = (case getitem_str v k of Inl e \<Rightarrow> False | Inr x \<Rightarrow> True)"

definition wellformed_day :: "pyval \<Rightarrow> bool" where
  "wellformed_day d =
     (has_key d (asc ''status'') \<and>
      (case getitem_str d (asc ''isReward'') of
         Inl e \<Rightarrow> False
       | Inr flag \<Rightarrow>
           if py_truthy flag then
             (case getitem_str d (asc ''reward'') of
                Inl e \<Rightarrow> False
              | Inr r \<Rightarrow> has_key r (asc ''name'') \<and> has_key r (asc ''description''))
           else True))"

text \<open>
  A sign-in response that \<open>__sign_in\<close> reads to the end: a container without
  \<open>'success'\<close>, or a dictionary with \<open>'success'\<close> whose result carries a count and a list of
  well-formed days with a missed day among them.
\<close>

definition sign_in_response_ok :: "pyval \<Rightarrow> bool" where
  "sign_in_response_ok data =
     (case str_in (asc ''success'') data of
        Inl e \<Rightarrow> False
      | Inr present \<Rightarrow>
          if present then
            (case getitem_str data (asc ''result'') of
               Inl e \<Rightarrow> False
             | Inr res \<Rightarrow>
                 has_key res (asc ''signInCount'') \<and>
                 (case getitem_str res (asc ''signInLogs'') of
                    Inr (PList days) \<Rightarrow> list_all wellformed_day days \<and> list_ex missed_day days
                  | _ \<Rightarrow> False))
          else True)"

section \<open>What the remote calls evaluate to\<close>

text \<open>
  The value of \<open>requests.post(...).json()\<close> in \<open>__get_access_token\<close>, called in the
  world \<open>w\<close> for the credential \<open>tok\<close>, and in \<open>__sign_in\<close>, called next with the access
  token \<open>a\<close>: the parsed answer, or the exception of the transport or of the parser.
\<close>

definition exchange_json :: "world \<Rightarrow> pystr \<Rightarrow> exn + pyval" where
  "exchange_json w tok = bind_exn (net w (calls w) (token_request tok)) json_body"

definition sign_in_json :: "pylib \<Rightarrow> world \<Rightarrow> pystr \<Rightarrow> pyval \<Rightarrow> exn + pyval" where
  "sign_in_json lib w tok a =
     bind_exn (net w (calls w @ [token_request tok]) (sign_in_request lib a)) json_body"

section \<open>Specification of the dispatch\<close>

text \<open>
  The dispatch as the specification words it: apply the \<open>push\<close> of every channel of a
  list, once each and in order, each in the world that the one before left; keep the
  value that each returns under the channel's name; stop at the first exception. The
  loop of \<open>push\<close> is compared with this function on the channels that are enabled.
\<close>

fun apply_each ::
  "(pystr \<times> pusher) list \<Rightarrow> pyval \<Rightarrow> pystr \<Rightarrow> pystr \<Rightarrow> pyval \<Rightarrow> world
   \<Rightarrow> (exn + (pystr \<times> pyval) list) \<times> world" where
  "apply_each [] config content content_html title w = (Inr [], w)"
| "apply_each ((name, p) # rest) config content content_html title w =
     (case p config content content_html title w of
        (Inl e, w1) \<Rightarrow> (Inl e, w1)
      | (Inr v, w1) \<Rightarrow>
          (case apply_each rest config content content_html title w1 of
             (Inl e, w2) \<Rightarrow> (Inl e, w2)
           | (Inr outs, w2) \<Rightarrow> (Inr ((name, v) # outs), w2)))"

text \<open>The names of the known channels, in the order of the dictionary literal.\<close>

definition known_channels :: "pystr list" where
  "known_channels =
     [asc ''dingtalk'', asc ''serverchan'', asc ''pushdeer'', asc ''telegram'',
      asc ''pushplus'', asc ''smtp'']"

section \<open>Instances for closed examples\<close>

text \<open>
  An instance of the library parameters: \<open>lower\<close> and \<open>strip\<close> as Python computes them on
  ASCII strings. The examples below never format a list or a dictionary.
\<close>

definition ascii_lower :: "pystr \<Rightarrow> pystr" where
  "ascii_lower s = map (\<lambda>c. if 65 \<le> c \<and> c \<le> 90 then c + 32 else c) s"

definition ascii_space :: "nat \<Rightarrow> bool" where
  "ascii_space c = (c = 32 \<or> (9 \<le> c \<and> c \<le> 13) \<or> (28 \<le> c \<and> c \<le> 31))"

definition ascii_strip :: "pystr \<Rightarrow> pystr" where
  "ascii_strip s = rev (dropWhile ascii_space (rev (dropWhile ascii_space s)))"

definition example_lib :: pylib where
  "example_lib =
     \<lparr>py_lower = ascii_lower, py_strip = ascii_strip,
      py_repr = (\<lambda>v. []), json_dumps = (\<lambda>v. [])\<rparr>"

text \<open>Days, responses and worlds for the examples.\<close>

definition example_day :: "int \<Rightarrow> string \<Rightarrow> pyval" where
  "example_day n st =
     PDict [(asc ''day'', PInt n), (asc ''status'', PStr (asc st)),
            (asc ''isReward'', PBool False)]"

definition example_reward_day :: "int \<Rightarrow> string \<Rightarrow> pyval" where
  "example_reward_day n st =
     PDict [(asc ''day'', PInt n), (asc ''status'', PStr (asc st)),
            (asc ''isReward'', PBool True),
            (asc ''reward'', PDict [(asc ''name'', PStr (asc ''gift'')),
                                    (asc ''description'', PStr (asc ''1GB''))])]"

definition example_token_response :: "pystr \<Rightarrow> pyval" where
  "example_token_response fresh =
     PDict [(asc ''access_token'', PStr (asc ''A1'')),
            (asc ''refresh_token'', PStr fresh),
            (asc ''user_name'', PStr (asc ''138''))]"

definition example_sign_in_response :: "int \<Rightarrow> pyval list \<Rightarrow> pyval" where
  "example_sign_in_response n days =
     PDict [(asc ''success'', PBool True),
            (asc ''result'', PDict [(asc ''signInCount'', PInt n),
                                    (asc ''signInLogs'', PList days)])]"

definition answer :: "int \<Rightarrow> pyval \<Rightarrow> http_response" where
  "answer st v = \<lparr>status_code = st, json_body = Inr v, resp_text = []\<rparr>"

text \<open>
  A world that answers the first request with one JSON value and every later request
  with another, both with status 200; a world that answers every request with a given
  status and value; a world in which every request raises.
\<close>

definition example_world :: "pyval \<Rightarrow> pyval \<Rightarrow> world" where
  "example_world first later =
     \<lparr>net = (\<lambda>hist req. Inr (answer 200 (if hist = [] then first else later))), calls = []\<rparr>"

definition status_world :: "int \<Rightarrow> pyval \<Rightarrow> world" where
  "status_world st v = \<lparr>net = (\<lambda>hist req. Inr (answer st v)), calls = []\<rparr>"

definition failing_world :: world where
  "failing_world = \<lparr>net = (\<lambda>hist req. Inl RequestException), calls = []\<rparr>"

text \<open>
  A world that answers the first request with status 200 and raises on every later one,
  and a world whose answers have a body that is not JSON.
\<close>

definition example_world_then_down :: "pyval \<Rightarrow> world" where
  "example_world_then_down first =
     \<lparr>net = (\<lambda>hist req. if hist = [] then Inr (answer 200 first) else Inl RequestException),
      calls = []\<rparr>"

definition not_json_world :: world where
  "not_json_world =
     \<lparr>net = (\<lambda>hist req. Inr \<lparr>status_code = 502, json_body = Inl JSONDecodeError,
                              resp_text = asc ''Bad Gateway''\<rparr>),
      calls = []\<rparr>"

definition example_config :: "pyval \<Rightarrow> pyval" where
  "example_config push_types =
     PDict [(asc ''push_types'', push_types),
            (asc ''telegram_endpoint'', PStr (asc ''https://api.telegram.org'')),
            (asc ''telegram_bot_token'', PStr (asc ''T'')),
            (asc ''telegram_chat_id'', PStr (asc ''1'')),
            (asc ''telegram_proxy'', PNone),
            (asc ''pushplus_token'', PStr (asc ''P''))]"

definition example_modules :: modules where
  "example_modules =
     \<lparr>dingtalk_push = (\<lambda>config content content_html title w. (Inr (PBool True), w)),
      serverchan_push = (\<lambda>config content content_html title w. (Inr (PBool True), w)),
      pushdeer_push = (\<lambda>config content content_html title w. (Inr (PBool True), w)),
      smtp_push = (\<lambda>config content content_html title w. (Inr (PBool True), w))\<rparr>"

section \<open>Masking of the credential\<close>

lemma hide_refresh_token_long:
  "8 \<le> length tok \<Longrightarrow>
   hide_refresh_token tok = take 4 tok @ replicate (length tok - 8) 42 @ drop (length tok - 4) tok"
  by (simp add: hide_refresh_token_def py_slice_def slice_index_def Let_def nat_diff_distrib' min_def max_def)

lemma hide_refresh_token_short:
  "length tok < 8 \<Longrightarrow> hide_refresh_token tok = take 4 tok @ drop (length tok - 4) tok"
  by (auto simp add: hide_refresh_token_def py_slice_def slice_index_def Let_def min_def max_def nat_diff_distrib')

text \<open>
  Claim C4. The claim: a credential of at least 8 characters keeps its first 4 and
  last 4 characters with one star per hidden character (lemma \<open>hide_refresh_token_long\<close>),
  and a credential shorter than 8 characters is displayed unchanged. The second half
  fails on the code: the \<open>except IndexError\<close> branch that would return the credential
  unchanged never runs, so the 5-character credential \<open>abcde\<close> is displayed as the
  8 characters \<open>abcdbcde\<close>.
\<close>

theorem hide_refresh_token_five:
  "hide_refresh_token (asc ''abcde'') = asc ''abcdbcde'' \<and> hide_refresh_token (asc ''abcde'') \<noteq> asc ''abcde''"
  by (simp add: hide_refresh_token_def py_slice_def slice_index_def asc_def)

section \<open>Streak extraction\<close>

lemma find_current_day_skip:
  "list_all signed_day pre \<Longrightarrow>
   find_current_day logs i (pre @ rest) = find_current_day logs (i + length pre) rest"
proof (induction pre arbitrary: i)
  case Nil then show ?case by simp
next
  case (Cons d pre)
  then show ?case by (auto simp: signed_day_def split: sum.splits)
qed

lemma find_current_day_hit:
  "missed_day m \<Longrightarrow> find_current_day logs i (m # rest) = getitem_int logs (int i - 1)"
  by (simp add: missed_day_def)

lemma find_current_day_none:
  "list_all signed_day days \<Longrightarrow> find_current_day logs i days = Inr PNone"
  by (induction days arbitrary: i) (auto simp: signed_day_def split: sum.splits)

lemma index_list_nth: "i < length xs \<Longrightarrow> index_list xs (int i) = Inr (xs ! i)"
  by (simp add: index_list_def)

lemma index_list_minus_one: "xs \<noteq> [] \<Longrightarrow> index_list xs (- 1) = Inr (last xs)"
  by (cases xs rule: rev_cases) (auto simp add: index_list_def nth_append)

lemma streak:
  assumes "list_all signed_day (pre @ [cur])" "missed_day m"
  shows "find_current_day (PList (pre @ cur # m # suf)) 0 (pre @ cur # m # suf) = Inr cur"
proof -
  have "find_current_day (PList (pre @ cur # m # suf)) 0 ((pre @ [cur]) @ m # suf)
        = find_current_day (PList (pre @ cur # m # suf)) (0 + length (pre @ [cur])) (m # suf)"
    using assms(1) by (rule find_current_day_skip)
  also have "\<dots> = getitem_int (PList (pre @ cur # m # suf)) (int (length pre))"
    using assms(2) by (simp add: missed_day_def)
  also have "\<dots> = Inr cur"
    using index_list_nth[of "length pre" "pre @ cur # m # suf"] by simp
  finally show ?thesis by simp
qed

lemma first_missed:
  assumes "missed_day m"
  shows "find_current_day (PList (m # rest)) 0 (m # rest) = Inr (last (m # rest))"
  using assms index_list_minus_one[of "m # rest"] by (simp add: missed_day_def)

lemma read_sign_in_success:
  assumes "str_in (asc ''success'') data = Inr True"
    and "getitem_str data (asc ''result'') = Inr res"
    and "getitem_str res (asc ''signInLogs'') = Inr (PList days)"
  shows "read_sign_in lib data self =
         bind_exn (find_current_day (PList days) 0 days) (\<lambda>current_day.
         bind_exn (reward_text lib current_day) (\<lambda>reward.
         bind_exn (getitem_str res (asc ''signInCount'')) (\<lambda>n.
           Inr (self\<lparr>self_signin_count := n, self_signin_reward := PStr reward\<rparr>))))"
  using assms by (simp add: read_sign_in_def)

lemma reward_text_unset:
  "getitem_str d (asc ''isReward'') = Inr flag \<Longrightarrow> \<not> py_truthy flag \<Longrightarrow>
   reward_text lib d = Inr lit_no_reward"
  by (simp add: reward_text_def)

lemma reward_text_set:
  "getitem_str d (asc ''isReward'') = Inr flag \<Longrightarrow> py_truthy flag \<Longrightarrow>
   getitem_str d (asc ''reward'') = Inr r \<Longrightarrow>
   getitem_str r (asc ''name'') = Inr name \<Longrightarrow>
   getitem_str r (asc ''description'') = Inr description \<Longrightarrow>
   reward_text lib d = Inr (lit_received @ py_str lib name @ asc '' '' @ py_str lib description)"
  by (simp add: reward_text_def)

text \<open>
  Claim C3. For a month log \<open>pre @ cur # m # suf\<close> in which \<open>m\<close> is the first missed day
  (every day of \<open>pre\<close> and \<open>cur\<close> has a status other than \<open>'miss'\<close>), the loop selects
  \<open>cur\<close>, the day just before the first miss, as the current day. The reward text is
  the literal for "no reward" when the reward flag of \<open>cur\<close> is falsy, and the literal for
  "received" followed by the reward's name, a space and its description otherwise;
  \<open>__sign_in\<close> stores that text together with the count of the response.
\<close>

theorem current_day_precedes_first_miss:
  assumes "list_all signed_day (pre @ [cur])"
    and "missed_day m"
    and "str_in (asc ''success'') data = Inr True"
    and "getitem_str data (asc ''result'') = Inr res"
    and "getitem_str res (asc ''signInLogs'') = Inr (PList (pre @ cur # m # suf))"
    and "getitem_str cur (asc ''isReward'') = Inr flag"
    and "py_truthy flag \<Longrightarrow>
           getitem_str cur (asc ''reward'') = Inr r \<and> getitem_str r (asc ''name'') = Inr name
           \<and> getitem_str r (asc ''description'') = Inr description"
  shows "find_current_day (PList (pre @ cur # m # suf)) 0 (pre @ cur # m # suf) = Inr cur
       \<and> reward_text lib cur =
           Inr (if py_truthy flag
                then lit_received @ py_str lib name @ asc '' '' @ py_str lib description
                else lit_no_reward)
       \<and> read_sign_in lib data self =
           bind_exn (getitem_str res (asc ''signInCount'')) (\<lambda>n.
             Inr (self\<lparr>self_signin_count := n,
                       self_signin_reward :=
                         PStr (if py_truthy flag
                               then lit_received @ py_str lib name @ asc '' ''
                                    @ py_str lib description
                               else lit_no_reward)\<rparr>))"
proof -
  have day: "find_current_day (PList (pre @ cur # m # suf)) 0 (pre @ cur # m # suf) = Inr cur"
    using assms(1,2) by (rule streak)
  have rw: "reward_text lib cur =
           Inr (if py_truthy flag
                then lit_received @ py_str lib name @ asc '' '' @ py_str lib description
                else lit_no_reward)"
  proof (cases "py_truthy flag")
    case True
    with assms(6,7) show ?thesis by (simp add: reward_text_set)
  next
    case False
    with assms(6) show ?thesis by (simp add: reward_text_unset)
  qed
  have "read_sign_in lib data self =
         bind_exn (find_current_day (PList (pre @ cur # m # suf)) 0 (pre @ cur # m # suf))
          (\<lambda>current_day.
         bind_exn (reward_text lib current_day) (\<lambda>reward.
         bind_exn (getitem_str res (asc ''signInCount'')) (\<lambda>n.
           Inr (self\<lparr>self_signin_count := n, self_signin_reward := PStr reward\<rparr>))))"
    using assms(3,4,5) by (rule read_sign_in_success)
  then show ?thesis
    using day rw by simp
qed

text \<open>
  The log signed, signed, missed, signed selects the day at index 1, once without and
  once with a reward.
\<close>

theorem current_day_precedes_first_miss_witness:
  "find_current_day
     (PList [example_day 1 ''normal'', example_day 2 ''normal'',
             example_day 3 ''miss'', example_day 4 ''normal'']) 0
     [example_day 1 ''normal'', example_day 2 ''normal'',
      example_day 3 ''miss'', example_day 4 ''normal'']
   = Inr (example_day 2 ''normal'')
   \<and> reward_text example_lib (example_day 2 ''normal'') = Inr lit_no_reward
   \<and> find_current_day
     (PList [example_day 1 ''normal'', example_reward_day 2 ''normal'',
             example_day 3 ''miss'', example_day 4 ''normal'']) 0
     [example_day 1 ''normal'', example_reward_day 2 ''normal'',
      example_day 3 ''miss'', example_day 4 ''normal'']
   = Inr (example_reward_day 2 ''normal'')
   \<and> reward_text example_lib (example_reward_day 2 ''normal'')
     = Inr (lit_received @ asc ''gift 1GB'')"
proof -
  let ?plain = "[example_day 1 ''normal'', example_day 2 ''normal'',
                 example_day 3 ''miss'', example_day 4 ''normal'']"
  let ?gift = "[example_day 1 ''normal'', example_reward_day 2 ''normal'',
                example_day 3 ''miss'', example_day 4 ''normal'']"
  have m: "missed_day (example_day 3 ''miss'')"
    by (simp add: missed_day_def example_day_def asc_def)
  have s1: "list_all signed_day ([example_day 1 ''normal''] @ [example_day 2 ''normal''])"
    by (simp add: signed_day_def example_day_def asc_def)
  have s2: "list_all signed_day ([example_day 1 ''normal''] @ [example_reward_day 2 ''normal''])"
    by (simp add: signed_day_def example_day_def example_reward_day_def asc_def)
  have ok: "str_in (asc ''success'') (example_sign_in_response 2 days) = Inr True" for days
    by (simp add: example_sign_in_response_def asc_def)
  have res: "getitem_str (example_sign_in_response 2 days) (asc ''result'')
             = Inr (PDict [(asc ''signInCount'', PInt 2), (asc ''signInLogs'', PList days)])" for days
    by (simp add: example_sign_in_response_def asc_def)
  have logs: "getitem_str (PDict [(asc ''signInCount'', PInt 2), (asc ''signInLogs'', PList days)])
                (asc ''signInLogs'') = Inr (PList days)" for days
    by (simp add: asc_def)
  have f1: "getitem_str (example_day 2 ''normal'') (asc ''isReward'') = Inr (PBool False)"
    by (simp add: example_day_def asc_def)
  have f2: "getitem_str (example_reward_day 2 ''normal'') (asc ''isReward'') = Inr (PBool True)"
    by (simp add: example_reward_day_def asc_def)
  have r2: "py_truthy (PBool True) \<Longrightarrow>
            getitem_str (example_reward_day 2 ''normal'') (asc ''reward'')
              = Inr (PDict [(asc ''name'', PStr (asc ''gift'')),
                            (asc ''description'', PStr (asc ''1GB''))])
            \<and> getitem_str (PDict [(asc ''name'', PStr (asc ''gift'')),
                            (asc ''description'', PStr (asc ''1GB''))]) (asc ''name'')
              = Inr (PStr (asc ''gift''))
            \<and> getitem_str (PDict [(asc ''name'', PStr (asc ''gift'')),
                            (asc ''description'', PStr (asc ''1GB''))]) (asc ''description'')
              = Inr (PStr (asc ''1GB''))"
    by (simp add: example_reward_day_def asc_def)
  have a: "find_current_day (PList ?plain) 0 ?plain = Inr (example_day 2 ''normal'')
           \<and> reward_text example_lib (example_day 2 ''normal'') = Inr lit_no_reward"
    using current_day_precedes_first_miss
      [OF s1 m ok res, where suf = "[example_day 4 ''normal'']" and flag = "PBool False"
        and lib = example_lib]
      logs [of ?plain] f1
    by simp
  have b: "find_current_day (PList ?gift) 0 ?gift = Inr (example_reward_day 2 ''normal'')
           \<and> reward_text example_lib (example_reward_day 2 ''normal'')
             = Inr (lit_received @ asc ''gift 1GB'')"
    using current_day_precedes_first_miss
      [OF s2 m ok res logs [of "[example_day 1 ''normal''] @ example_reward_day 2 ''normal''
            # example_day 3 ''miss'' # [example_day 4 ''normal'']"] f2 r2, of example_lib]
    by (simp add: asc_def)
  from a b show ?thesis by simp
qed

text \<open>
  Claim C10. When the first day of a non-empty month log is missed, the loop stops at
  index 0 and reads \<open>logs[-1]\<close>: the current day is the last day of the log, and the
  reward text that \<open>__sign_in\<close> stores is computed from that day.
\<close>

theorem first_day_missed_selects_last:
  assumes "missed_day m"
    and "str_in (asc ''success'') data = Inr True"
    and "getitem_str data (asc ''result'') = Inr res"
    and "getitem_str res (asc ''signInLogs'') = Inr (PList (m # rest))"
  shows "find_current_day (PList (m # rest)) 0 (m # rest) = Inr (last (m # rest))
       \<and> read_sign_in lib data self =
           bind_exn (reward_text lib (last (m # rest))) (\<lambda>reward.
           bind_exn (getitem_str res (asc ''signInCount'')) (\<lambda>n.
             Inr (self\<lparr>self_signin_count := n, self_signin_reward := PStr reward\<rparr>)))"
proof -
  have day: "find_current_day (PList (m # rest)) 0 (m # rest) = Inr (last (m # rest))"
    using assms(1) by (rule first_missed)
  have "read_sign_in lib data self =
         bind_exn (find_current_day (PList (m # rest)) 0 (m # rest)) (\<lambda>current_day.
         bind_exn (reward_text lib current_day) (\<lambda>reward.
         bind_exn (getitem_str res (asc ''signInCount'')) (\<lambda>n.
           Inr (self\<lparr>self_signin_count := n, self_signin_reward := PStr reward\<rparr>))))"
    using assms(2,3,4) by (rule read_sign_in_success)
  then show ?thesis
    using day by simp
qed

text \<open>
  A log of three missed days: the current day is the third, whose reward is reported.
\<close>

theorem first_day_missed_selects_last_witness:
  "find_current_day
     (PList [example_day 1 ''miss'', example_day 2 ''miss'', example_reward_day 3 ''miss'']) 0
     [example_day 1 ''miss'', example_day 2 ''miss'', example_reward_day 3 ''miss'']
   = Inr (example_reward_day 3 ''miss'')
   \<and> read_sign_in example_lib
       (example_sign_in_response 2
          [example_day 1 ''miss'', example_day 2 ''miss'', example_reward_day 3 ''miss''])
       (init (asc ''0123456789''))
     = Inr ((init (asc ''0123456789''))
              \<lparr>self_signin_count := PInt 2,
               self_signin_reward := PStr (lit_received @ asc ''gift 1GB'')\<rparr>)"
proof -
  let ?days = "[example_day 1 ''miss'', example_day 2 ''miss'', example_reward_day 3 ''miss'']"
  have m: "missed_day (example_day 1 ''miss'')"
    by (simp add: missed_day_def example_day_def asc_def)
  have ok: "str_in (asc ''success'') (example_sign_in_response 2 ?days) = Inr True"
    by (simp add: example_sign_in_response_def asc_def)
  have res: "getitem_str (example_sign_in_response 2 ?days) (asc ''result'')
             = Inr (PDict [(asc ''signInCount'', PInt 2), (asc ''signInLogs'', PList ?days)])"
    by (simp add: example_sign_in_response_def asc_def)
  have logs: "getitem_str (PDict [(asc ''signInCount'', PInt 2), (asc ''signInLogs'', PList ?days)])
                (asc ''signInLogs'') = Inr (PList ?days)"
    by (simp add: asc_def)
  have rt: "reward_text example_lib (example_reward_day 3 ''miss'')
            = Inr (lit_received @ asc ''gift 1GB'')"
    by (simp add: reward_text_def example_reward_day_def asc_def)
  show ?thesis
    using first_day_missed_selects_last [OF m ok res logs, of example_lib "init (asc ''0123456789'')"] rt
    by (simp add: asc_def)
qed

section \<open>Running a session\<close>

lemma post_eq: "post req w = (net w (calls w) req, w\<lparr>calls := calls w @ [req]\<rparr>)"
  by (simp add: post_def)

lemma get_access_token_answer:
  assumes "net w (calls w) (token_request (self_refresh_token self)) = Inr resp"
    and "json_body resp = Inr data"
  shows "get_access_token self w =
         (read_token data self, w\<lparr>calls := calls w @ [token_request (self_refresh_token self)]\<rparr>)"
  using assms by (simp add: get_access_token_def post_def)

lemma sign_in_answer:
  assumes "net w (calls w) (sign_in_request lib (self_access_token self)) = Inr resp"
    and "json_body resp = Inr data"
  shows "sign_in lib self w =
         (read_sign_in lib data self,
          w\<lparr>calls := calls w @ [sign_in_request lib (self_access_token self)]\<rparr>)"
  using assms by (simp add: sign_in_def post_def)

lemma run_rejected:
  assumes "net w (calls w) (token_request (self_refresh_token self)) = Inr resp"
    and "json_body resp = Inr data"
    and "code_rejected data = Inr True"
  shows "run lib self w =
         (Inr (generate_result lib (self\<lparr>self_error := data\<rparr>), self\<lparr>self_error := data\<rparr>),
          w\<lparr>calls := calls w @ [token_request (self_refresh_token self)]\<rparr>)"
  using assms by (simp add: run_def get_access_token_answer read_token_def)

lemma read_token_accepted:
  assumes "code_rejected data = Inr False"
    and "getitem_str data (asc ''access_token'') = Inr a"
    and "getitem_str data (asc ''refresh_token'') = Inr fresh"
    and "getitem_str data (asc ''user_name'') = Inr u"
  shows "read_token data self =
         Inr (True, self\<lparr>self_access_token := a, self_new_refresh_token := fresh, self_phone := u\<rparr>)"
  using assms by (simp add: read_token_def)

lemma run_accepted:
  assumes "net w (calls w) (token_request (self_refresh_token self)) = Inr resp1"
    and "json_body resp1 = Inr data1"
    and "read_token data1 self = Inr (True, s1)"
    and "net w (calls w @ [token_request (self_refresh_token self)])
           (sign_in_request lib (self_access_token s1)) = Inr resp2"
    and "json_body resp2 = Inr data2"
  shows "run lib self w =
         (case read_sign_in lib data2 s1 of
            Inl e \<Rightarrow> Inl e
          | Inr s2 \<Rightarrow> Inr (generate_result lib s2, s2),
          w\<lparr>calls := calls w @ [token_request (self_refresh_token self),
                                sign_in_request lib (self_access_token s1)]\<rparr>)"
proof -
  let ?w1 = "w\<lparr>calls := calls w @ [token_request (self_refresh_token self)]\<rparr>"
  have g: "get_access_token self w = (Inr (True, s1), ?w1)"
    using assms(1,2,3) by (simp add: get_access_token_answer)
  have n: "net ?w1 (calls ?w1) (sign_in_request lib (self_access_token s1)) = Inr resp2"
    using assms(4) by simp
  have s: "sign_in lib s1 ?w1 =
           (read_sign_in lib data2 s1,
            ?w1\<lparr>calls := calls ?w1 @ [sign_in_request lib (self_access_token s1)]\<rparr>)"
    using n assms(5) by (rule sign_in_answer)
  show ?thesis
    by (simp add: run_def g s split: sum.splits)
qed

lemma code_rejected_listed:
  assumes "getitem_str data (asc ''code'') = Inr c"
    and "c = PStr (asc ''RefreshTokenExpired'') \<or> c = PStr (asc ''InvalidParameter.RefreshToken'')"
  shows "code_rejected data = Inr True"
  using assms by (auto simp: code_rejected_def)

text \<open>
  Claim C6. When the exchange answers with a code \<open>RefreshTokenExpired\<close> or
  \<open>InvalidParameter.RefreshToken\<close>, \<open>run\<close> returns a result with \<open>success = False\<close>; the
  object's \<open>error\<close> is the raw answer, which the report fragments print through
  \<open>json.dumps\<close>; the result's \<open>refresh_token\<close> is the credential the session was given; and
  the only request made is the exchange, so no sign-in call happens.
\<close>

theorem rejected_credential_fails_without_sign_in:
  assumes "net w (calls w) (token_request tok) = Inr resp"
    and "json_body resp = Inr data"
    and "getitem_str data (asc ''code'') = Inr c"
    and "c = PStr (asc ''RefreshTokenExpired'') \<or> c = PStr (asc ''InvalidParameter.RefreshToken'')"
  shows "\<exists>r s w'. run lib (init tok) w = (Inr (r, s), w')
           \<and> \<not> res_success r
           \<and> self_error s = data
           \<and> res_text r = asc ''['' @ hide_refresh_token tok @ asc '']'' @ lit_failed @ json_dumps lib data
           \<and> res_text_html r = asc ''<code>'' @ hide_refresh_token tok @ asc ''</code>'' @ lit_failed
                @ asc ''<code>'' @ json_dumps lib data @ asc ''</code>''
           \<and> res_refresh_token r = PStr tok
           \<and> calls w' = calls w @ [token_request tok]"
proof -
  have rej: "code_rejected data = Inr True"
    using assms(3,4) by (rule code_rejected_listed)
  have tok: "self_refresh_token (init tok) = tok"
    by (simp add: init_def)
  have "run lib (init tok) w =
        (Inr (generate_result lib ((init tok)\<lparr>self_error := data\<rparr>), (init tok)\<lparr>self_error := data\<rparr>),
         w\<lparr>calls := calls w @ [token_request tok]\<rparr>)"
    using run_rejected[of w "init tok" resp data lib] assms(1,2) rej tok by simp
  then show ?thesis
    by (simp add: generate_result_def init_def py_or_def)
qed

text \<open>
  A session whose exchange answers \<open>{"code": "RefreshTokenExpired"}\<close>.
\<close>

theorem rejected_credential_witness:
  "\<exists>r s w'. run example_lib (init (asc ''0123456789''))
        (example_world (PDict [(asc ''code'', PStr (asc ''RefreshTokenExpired''))]) PNone) = (Inr (r, s), w')
     \<and> \<not> res_success r
     \<and> self_error s = PDict [(asc ''code'', PStr (asc ''RefreshTokenExpired''))]
     \<and> res_refresh_token r = PStr (asc ''0123456789'')
     \<and> calls w' = [token_request (asc ''0123456789'')]"
proof -
  let ?data = "PDict [(asc ''code'', PStr (asc ''RefreshTokenExpired''))]"
  let ?w = "example_world ?data PNone"
  have n: "net ?w (calls ?w) (token_request (asc ''0123456789'')) = Inr (answer 200 ?data)"
    by (simp add: example_world_def)
  have j: "json_body (answer 200 ?data) = Inr ?data"
    by (simp add: answer_def)
  have c: "getitem_str ?data (asc ''code'') = Inr (PStr (asc ''RefreshTokenExpired''))"
    by simp
  have "calls ?w = []"
    by (simp add: example_world_def)
  with rejected_credential_fails_without_sign_in [OF n j c, of example_lib]
  show ?thesis by auto
qed

lemma run_generated:
  "run lib self w = (Inr (r, s), w') \<Longrightarrow> r = generate_result lib s"
  by (auto simp: run_def split: prod.splits sum.splits if_splits)

lemma run_no_success:
  assumes "net w (calls w) (token_request tok) = Inr resp1"
    and "json_body resp1 = Inr data1"
    and "code_rejected data1 = Inr False"
    and "getitem_str data1 (asc ''access_token'') = Inr a"
    and "getitem_str data1 (asc ''refresh_token'') = Inr fresh"
    and "getitem_str data1 (asc ''user_name'') = Inr u"
    and "net w (calls w @ [token_request tok]) (sign_in_request lib a) = Inr resp2"
    and "json_body resp2 = Inr data2"
    and "str_in (asc ''success'') data2 = Inr False"
  shows "run lib (init tok) w =
         (Inr (generate_result lib
                 ((init tok)\<lparr>self_access_token := a, self_new_refresh_token := fresh,
                              self_phone := u, self_error := data2\<rparr>),
               (init tok)\<lparr>self_access_token := a, self_new_refresh_token := fresh,
                            self_phone := u, self_error := data2\<rparr>),
          w\<lparr>calls := calls w @ [token_request tok, sign_in_request lib a]\<rparr>)"
proof -
  let ?s1 = "(init tok)\<lparr>self_access_token := a, self_new_refresh_token := fresh, self_phone := u\<rparr>"
  have tok: "self_refresh_token (init tok) = tok"
    by (simp add: init_def)
  have rt: "read_token data1 (init tok) = Inr (True, ?s1)"
    using assms(3,4,5,6) by (rule read_token_accepted)
  have acc: "self_access_token ?s1 = a"
    by simp
  have rs: "read_sign_in lib data2 ?s1 = Inr (?s1\<lparr>self_error := data2\<rparr>)"
    using assms(9) by (simp add: read_sign_in_def)
  show ?thesis
    using run_accepted [of w "init tok" resp1 data1 ?s1 lib resp2 data2] assms(1,2,7,8) rt
    by (simp add: tok rs)
qed

text \<open>
  Claim C5. When the exchange succeeds, returning a truthy (non-empty) fresh credential,
  and the sign-in answer does not contain \<open>'success'\<close>, \<open>run\<close> returns a result with
  \<open>success = False\<close>; the object's \<open>error\<close> is the raw sign-in answer, which both report
  fragments print through \<open>json.dumps\<close>; and the result's \<open>refresh_token\<close> is the fresh
  credential returned by the exchange.
\<close>

theorem sign_in_without_success_fails:
  assumes "net w (calls w) (token_request tok) = Inr resp1"
    and "json_body resp1 = Inr data1"
    and "code_rejected data1 = Inr False"
    and "getitem_str data1 (asc ''access_token'') = Inr a"
    and "getitem_str data1 (asc ''refresh_token'') = Inr fresh"
    and "getitem_str data1 (asc ''user_name'') = Inr u"
    and "net w (calls w @ [token_request tok]) (sign_in_request lib a) = Inr resp2"
    and "json_body resp2 = Inr data2"
    and "str_in (asc ''success'') data2 = Inr False"
    and "py_truthy fresh"
  shows "\<exists>r s w'. run lib (init tok) w = (Inr (r, s), w')
           \<and> \<not> res_success r
           \<and> self_error s = data2
           \<and> res_text r = asc ''['' @ py_str lib (py_or u (PStr (hide_refresh_token tok)))
                @ asc '']'' @ lit_failed @ json_dumps lib data2
           \<and> res_text_html r =
                asc ''<code>'' @ py_str lib (py_or u (PStr (hide_refresh_token tok)))
                @ asc ''</code>'' @ lit_failed
                @ asc ''<code>'' @ json_dumps lib data2 @ asc ''</code>''
           \<and> res_refresh_token r = fresh"
  using run_no_success [OF assms(1-9)] assms(10)
  by (simp add: generate_result_def init_def py_or_def)

lemma example_world_first:
  "net (example_world first later) (calls (example_world first later)) req = Inr (answer 200 first)"
  by (simp add: example_world_def)

lemma example_world_later:
  "net (example_world first later) (calls (example_world first later) @ [req']) req
   = Inr (answer 200 later)"
  by (simp add: example_world_def)

lemma example_world_calls: "calls (example_world first later) = []"
  by (simp add: example_world_def)

lemma json_body_answer: "json_body (answer st v) = Inr v"
  by (simp add: answer_def)

lemma example_token_response_fields:
  "code_rejected (example_token_response fresh) = Inr False"
  "getitem_str (example_token_response fresh) (asc ''access_token'') = Inr (PStr (asc ''A1''))"
  "getitem_str (example_token_response fresh) (asc ''refresh_token'') = Inr (PStr fresh)"
  "getitem_str (example_token_response fresh) (asc ''user_name'') = Inr (PStr (asc ''138''))"
  by (simp_all add: example_token_response_def code_rejected_def asc_def)

lemma example_run_accepted:
  "run lib (init tok) (example_world (example_token_response fresh) data2) =
     (case read_sign_in lib data2
             ((init tok)\<lparr>self_access_token := PStr (asc ''A1''),
                          self_new_refresh_token := PStr fresh,
                          self_phone := PStr (asc ''138'')\<rparr>) of
        Inl e \<Rightarrow> Inl e
      | Inr s2 \<Rightarrow> Inr (generate_result lib s2, s2),
      (example_world (example_token_response fresh) data2)
        \<lparr>calls := [token_request tok, sign_in_request lib (PStr (asc ''A1''))]\<rparr>)"
proof -
  let ?w = "example_world (example_token_response fresh) data2"
  let ?s1 = "(init tok)\<lparr>self_access_token := PStr (asc ''A1''),
                          self_new_refresh_token := PStr fresh,
                          self_phone := PStr (asc ''138'')\<rparr>"
  have tok: "self_refresh_token (init tok) = tok"
    by (simp add: init_def)
  have n1: "net ?w (calls ?w) (token_request (self_refresh_token (init tok)))
            = Inr (answer 200 (example_token_response fresh))"
    by (rule example_world_first)
  have rt: "read_token (example_token_response fresh) (init tok) = Inr (True, ?s1)"
    by (rule read_token_accepted) (rule example_token_response_fields)+
  have n2: "net ?w (calls ?w @ [token_request (self_refresh_token (init tok))])
              (sign_in_request lib (self_access_token ?s1)) = Inr (answer 200 data2)"
    by (rule example_world_later)
  show ?thesis
    using run_accepted [OF n1 json_body_answer rt n2 json_body_answer]
    by (simp add: tok example_world_calls)
qed

text \<open>
  A session whose exchange returns the fresh credential \<open>R1\<close> and whose sign-in answer
  is \<open>{"message": "busy"}\<close>.
\<close>

theorem sign_in_without_success_witness:
  "\<exists>r s w'. run example_lib (init (asc ''0123456789''))
        (example_world (example_token_response (asc ''R1''))
           (PDict [(asc ''message'', PStr (asc ''busy''))])) = (Inr (r, s), w')
     \<and> \<not> res_success r
     \<and> self_error s = PDict [(asc ''message'', PStr (asc ''busy''))]
     \<and> res_text r = asc ''[138]'' @ lit_failed
          @ json_dumps example_lib (PDict [(asc ''message'', PStr (asc ''busy''))])
     \<and> res_refresh_token r = PStr (asc ''R1'')"
proof -
  let ?data2 = "PDict [(asc ''message'', PStr (asc ''busy''))]"
  let ?w = "example_world (example_token_response (asc ''R1'')) ?data2"
  have n2: "net ?w (calls ?w @ [token_request (asc ''0123456789'')])
              (sign_in_request example_lib (PStr (asc ''A1''))) = Inr (answer 200 ?data2)"
    by (rule example_world_later)
  have absent: "str_in (asc ''success'') ?data2 = Inr False"
    by (simp add: asc_def)
  have fresh: "py_truthy (PStr (asc ''R1''))"
    by (simp add: asc_def)
  from sign_in_without_success_fails
      [OF example_world_first json_body_answer example_token_response_fields n2
          json_body_answer absent fresh]
  obtain r s w' where
    ran: "run example_lib (init (asc ''0123456789'')) ?w = (Inr (r, s), w')" and
    fails: "\<not> res_success r" and
    err: "self_error s = ?data2" and
    tx: "res_text r =
           asc ''['' @ py_str example_lib
             (py_or (PStr (asc ''138'')) (PStr (hide_refresh_token (asc ''0123456789''))))
           @ asc '']'' @ lit_failed @ json_dumps example_lib ?data2" and
    rot: "res_refresh_token r = PStr (asc ''R1'')"
    by blast
  have "asc ''['' @ py_str example_lib
             (py_or (PStr (asc ''138'')) (PStr (hide_refresh_token (asc ''0123456789''))))
           @ asc '']'' = asc ''[138]''"
    by (simp add: py_or_def asc_def)
  with tx have "res_text r = asc ''[138]'' @ lit_failed @ json_dumps example_lib ?data2"
    by simp
  with ran fails err rot show ?thesis
    by blast
qed

text \<open>
  Claim C1 as stated fails: \<open>run\<close> has no handler, so an exception of \<open>__sign_in\<close>
  reaches the caller. A sign-in answer \<open>{"success": true}\<close> without \<open>result\<close> raises
  KeyError, and a month log without a missed day leaves \<open>current_day\<close> at \<open>None\<close>, whose
  subscript raises TypeError.
\<close>

theorem run_raises_on_sign_in_responses:
  "fst (run example_lib (init (asc ''0123456789''))
         (example_world (example_token_response (asc ''R1''))
            (PDict [(asc ''success'', PBool True)])))
   = Inl (KeyError (PStr (asc ''result'')))
   \<and> fst (run example_lib (init (asc ''0123456789''))
         (example_world (example_token_response (asc ''R1''))
            (example_sign_in_response 2
               [example_day 1 ''normal'', example_day 2 ''normal''])))
   = Inl TypeError"
  unfolding example_run_accepted
  by (simp add: read_sign_in_def reward_text_def example_sign_in_response_def
      example_day_def asc_def)

lemma index_prev_in_set:
  "i < length xs \<Longrightarrow> \<exists>x\<in>set xs. index_list xs (int i - 1) = Inr x"
proof (cases i)
  case 0
  assume "i < length xs"
  then obtain y ys where xs: "xs = y # ys"
    by (cases xs) auto
  with 0 have "index_list xs (int i - 1) = Inr (xs ! length ys)"
    by (simp add: index_list_def)
  moreover from xs have "xs ! length ys \<in> set xs"
    using nth_mem [of "length ys" xs] by simp
  ultimately show ?thesis by blast
next
  case (Suc j)
  assume "i < length xs"
  with Suc have "index_list xs (int i - 1) = Inr (xs ! j)" and "xs ! j \<in> set xs"
    by (simp_all add: index_list_def)
  then show ?thesis by blast
qed

lemma find_current_day_returns:
  "list_all (\<lambda>d. has_key d (asc ''status'')) days \<Longrightarrow> list_ex missed_day days \<Longrightarrow>
   i + length days \<le> length logs \<Longrightarrow>
   \<exists>cd\<in>set logs. find_current_day (PList logs) i days = Inr cd"
proof (induction days arbitrary: i)
  case Nil
  then show ?case by simp
next
  case (Cons d days)
  from Cons.prems(1) obtain st where st: "getitem_str d (asc ''status'') = Inr st"
    by (auto simp: has_key_def split: sum.splits)
  show ?case
  proof (cases "st = PStr (asc ''miss'')")
    case True
    from Cons.prems(3) have "i < length logs" by simp
    then show ?thesis
      using st True index_prev_in_set [of i logs] by simp
  next
    case False
    with st have "\<not> missed_day d"
      by (simp add: missed_day_def)
    with Cons.prems(2) have ex: "list_ex missed_day days"
      by simp
    from Cons.prems(1) have al: "list_all (\<lambda>d. has_key d (asc ''status'')) days"
      by simp
    from Cons.prems(3) have "Suc i + length days \<le> length logs"
      by simp
    from Cons.IH [OF al ex this] show ?thesis
      using st False by simp
  qed
qed

lemma reward_text_wellformed:
  "wellformed_day d \<Longrightarrow> \<exists>t. reward_text lib d = Inr t"
  by (auto simp: wellformed_day_def has_key_def reward_text_def split: sum.splits if_splits)

lemma wellformed_day_status: "wellformed_day d \<Longrightarrow> has_key d (asc ''status'')"
  by (simp add: wellformed_day_def)

lemma read_sign_in_returns:
  assumes "sign_in_response_ok data"
  shows "\<exists>s'. read_sign_in lib data self = Inr s'"
proof -
  from assms obtain present where p: "str_in (asc ''success'') data = Inr present"
    by (auto simp: sign_in_response_ok_def split: sum.splits)
  show ?thesis
  proof (cases present)
    case False
    with p show ?thesis by (simp add: read_sign_in_def)
  next
    case True
    with p assms obtain res days n where
      res: "getitem_str data (asc ''result'') = Inr res" and
      logs: "getitem_str res (asc ''signInLogs'') = Inr (PList days)" and
      n: "getitem_str res (asc ''signInCount'') = Inr n" and
      wf: "list_all wellformed_day days" and ex: "list_ex missed_day days"
      by (auto simp: sign_in_response_ok_def has_key_def split: sum.splits pyval.splits)
    from wf have "list_all (\<lambda>d. has_key d (asc ''status'')) days"
      by (simp add: list_all_iff wellformed_day_status)
    from find_current_day_returns [OF this ex, of 0 days]
    obtain cd where cd: "cd \<in> set days" "find_current_day (PList days) 0 days = Inr cd"
      by auto
    from wf cd(1) have "wellformed_day cd"
      by (simp add: list_all_iff)
    then obtain t where t: "reward_text lib cd = Inr t"
      using reward_text_wellformed by blast
    from p True have "str_in (asc ''success'') data = Inr True" by simp
    from read_sign_in_success [OF this res logs, of lib self] show ?thesis
      by (simp add: cd(2) t n)
  qed
qed

lemma bind_exn_case: "bind_exn m f = (case m of Inl e \<Rightarrow> Inl e | Inr x \<Rightarrow> f x)"
  by (cases m) simp_all

lemma run_fst:
  "fst (run lib self w) =
     bind_exn (exchange_json w (self_refresh_token self)) (\<lambda>data1.
     bind_exn (read_token data1 self) (\<lambda>ok_s1.
       if fst ok_s1 then
         bind_exn (sign_in_json lib w (self_refresh_token self) (self_access_token (snd ok_s1)))
           (\<lambda>data2.
         bind_exn (read_sign_in lib data2 (snd ok_s1)) (\<lambda>s2.
           Inr (generate_result lib s2, s2)))
       else Inr (generate_result lib (snd ok_s1), snd ok_s1)))"
  by (auto simp: run_def get_access_token_def sign_in_def post_def exchange_json_def
      sign_in_json_def bind_exn_case split: sum.splits prod.splits)

lemma read_token_True:
  assumes "read_token data self = Inr (True, s1)"
  shows "code_rejected data = Inr False"
    and "getitem_str data (asc ''access_token'') = Inr (self_access_token s1)"
    and "self_signin_count s1 = self_signin_count self"
    and "self_error s1 = self_error self"
  using assms
  by (auto simp: read_token_def bind_exn_case split: sum.splits if_splits)

lemma read_token_False:
  assumes "read_token data self = Inr (False, s1)"
  shows "code_rejected data = Inr True" and "s1 = self\<lparr>self_error := data\<rparr>"
  using assms
  by (auto simp: read_token_def bind_exn_case split: sum.splits if_splits)

lemma read_sign_in_count:
  assumes "read_sign_in lib data s1 = Inr s2"
    and "str_in (asc ''success'') data = Inr True"
    and "getitem_str data (asc ''result'') = Inr res"
    and "getitem_str res (asc ''signInCount'') = Inr n"
  shows "self_signin_count s2 = n" and "self_error s2 = self_error s1"
  using assms
  by (auto simp: read_sign_in_def bind_exn_case split: sum.splits)

lemma read_sign_in_absent:
  assumes "str_in (asc ''success'') data = Inr False"
  shows "read_sign_in lib data s1 = Inr (s1\<lparr>self_error := data\<rparr>)"
  using assms by (simp add: read_sign_in_def)

lemma example_world_exchange_json:
  "exchange_json (example_world first later) tok = Inr first"
  by (simp add: exchange_json_def example_world_def answer_def)

lemma example_world_sign_in_json:
  "sign_in_json lib (example_world first later) tok a = Inr later"
  by (simp add: sign_in_json_def example_world_def answer_def)

lemma init_refresh_token: "self_refresh_token (init tok) = tok"
  by (simp add: init_def)

lemma example_signed_run:
  "run example_lib (init tok)
     (example_world (example_token_response fresh)
        (example_sign_in_response n [example_day 1 ''normal'', example_day 2 ''miss'']))
   = (Inr (generate_result example_lib
             ((init tok)\<lparr>self_access_token := PStr (asc ''A1''),
                          self_new_refresh_token := PStr fresh,
                          self_phone := PStr (asc ''138''),
                          self_signin_count := PInt n,
                          self_signin_reward := PStr lit_no_reward\<rparr>),
           (init tok)\<lparr>self_access_token := PStr (asc ''A1''),
                        self_new_refresh_token := PStr fresh,
                        self_phone := PStr (asc ''138''),
                        self_signin_count := PInt n,
                        self_signin_reward := PStr lit_no_reward\<rparr>),
      (example_world (example_token_response fresh)
         (example_sign_in_response n [example_day 1 ''normal'', example_day 2 ''miss'']))
        \<lparr>calls := [token_request tok, sign_in_request example_lib (PStr (asc ''A1''))]\<rparr>)"
proof -
  have rs: "read_sign_in example_lib
              (example_sign_in_response n [example_day 1 ''normal'', example_day 2 ''miss''])
              ((init tok)\<lparr>self_access_token := PStr (asc ''A1''),
                           self_new_refresh_token := PStr fresh,
                           self_phone := PStr (asc ''138'')\<rparr>)
            = Inr ((init tok)\<lparr>self_access_token := PStr (asc ''A1''),
                        self_new_refresh_token := PStr fresh,
                        self_phone := PStr (asc ''138''),
                        self_signin_count := PInt n,
                        self_signin_reward := PStr lit_no_reward\<rparr>)"
    by (simp add: read_sign_in_def reward_text_def example_sign_in_response_def example_day_def
        index_list_def asc_def)
  show ?thesis
    unfolding example_run_accepted by (simp add: rs)
qed

lemma example_sign_in_response_fields:
  "str_in (asc ''success'') (example_sign_in_response n days) = Inr True"
  "getitem_str (example_sign_in_response n days) (asc ''result'')
   = Inr (PDict [(asc ''signInCount'', PInt n), (asc ''signInLogs'', PList days)])"
  "getitem_str (PDict [(asc ''signInCount'', PInt n), (asc ''signInLogs'', PList days)])
     (asc ''signInCount'') = Inr (PInt n)"
  by (simp_all add: example_sign_in_response_def asc_def)

lemma run_pair: "run lib self w = (fst (run lib self w), snd (run lib self w))"
  by simp

lemma generate_result_flag:
  "res_success (generate_result lib s) = py_truthy (self_signin_count s)"
  "res_count (generate_result lib s) = self_signin_count s"
  by (simp_all add: generate_result_def Let_def)

lemma sign_in_response_ok_present:
  "sign_in_response_ok data \<Longrightarrow> \<exists>present. str_in (asc ''success'') data = Inr present"
  by (auto simp: sign_in_response_ok_def split: sum.splits)

text \<open>
  Claim C1, as amended. \<open>run\<close> returns a result, with the outcome in its \<open>success\<close> flag,
  whenever the exchange call evaluates to JSON that carries a rejecting code, or to JSON
  without a rejecting code that carries \<open>access_token\<close>, \<open>refresh_token\<close> and \<open>user_name\<close>
  and the sign-in call then evaluates to JSON that is a container without \<open>'success'\<close>, or
  a dictionary with \<open>'success'\<close> whose result carries \<open>signInCount\<close> and a list of
  well-formed days with a missed day among them. The flag is the truth value of the
  result's count, and it is set only if the exchange was accepted and the sign-in answer
  contained \<open>'success'\<close>. \<open>run\<close> has no handler: an exception of the exchange call, of
  reading the exchange answer, of the sign-in call or of reading the sign-in answer is
  the outcome of \<open>run\<close>.
\<close>

theorem run_returns_or_raises:
  "(exchange_json w tok = Inr data1 \<and> code_rejected data1 = Inr rejected
     \<and> (\<not> rejected \<longrightarrow>
          getitem_str data1 (asc ''access_token'') = Inr a
          \<and> getitem_str data1 (asc ''refresh_token'') = Inr fresh
          \<and> getitem_str data1 (asc ''user_name'') = Inr u
          \<and> sign_in_json lib w tok a = Inr data2
          \<and> sign_in_response_ok data2)
     \<longrightarrow> (\<exists>r s w'. run lib (init tok) w = (Inr (r, s), w')
            \<and> (res_success r \<longleftrightarrow> py_truthy (res_count r))
            \<and> (res_success r \<longrightarrow>
                  \<not> rejected \<and> str_in (asc ''success'') data2 = Inr True)))
   \<and> (exchange_json w tok = Inl e \<longrightarrow> fst (run lib (init tok) w) = Inl e)
   \<and> (exchange_json w tok = Inr data1 \<and> read_token data1 (init tok) = Inl e
        \<longrightarrow> fst (run lib (init tok) w) = Inl e)
   \<and> (exchange_json w tok = Inr data1 \<and> read_token data1 (init tok) = Inr (True, s1)
        \<and> sign_in_json lib w tok (self_access_token s1) = Inl e
        \<longrightarrow> fst (run lib (init tok) w) = Inl e)
   \<and> (exchange_json w tok = Inr data1 \<and> read_token data1 (init tok) = Inr (True, s1)
        \<and> sign_in_json lib w tok (self_access_token s1) = Inr data2
        \<and> read_sign_in lib data2 s1 = Inl e
        \<longrightarrow> fst (run lib (init tok) w) = Inl e)"
proof (intro conjI impI)
  assume h: "exchange_json w tok = Inr data1 \<and> code_rejected data1 = Inr rejected
     \<and> (\<not> rejected \<longrightarrow>
          getitem_str data1 (asc ''access_token'') = Inr a
          \<and> getitem_str data1 (asc ''refresh_token'') = Inr fresh
          \<and> getitem_str data1 (asc ''user_name'') = Inr u
          \<and> sign_in_json lib w tok a = Inr data2
          \<and> sign_in_response_ok data2)"
  then have ex: "exchange_json w tok = Inr data1" and cr: "code_rejected data1 = Inr rejected"
    by simp_all
  show "\<exists>r s w'. run lib (init tok) w = (Inr (r, s), w')
            \<and> (res_success r \<longleftrightarrow> py_truthy (res_count r))
            \<and> (res_success r \<longrightarrow> \<not> rejected \<and> str_in (asc ''success'') data2 = Inr True)"
  proof (cases rejected)
    case True
    with cr have "read_token data1 (init tok) = Inr (False, (init tok)\<lparr>self_error := data1\<rparr>)"
      by (simp add: read_token_def)
    with ex have f: "fst (run lib (init tok) w)
        = Inr (generate_result lib ((init tok)\<lparr>self_error := data1\<rparr>),
               (init tok)\<lparr>self_error := data1\<rparr>)"
      by (simp add: run_fst init_refresh_token)
    have "\<not> res_success (generate_result lib ((init tok)\<lparr>self_error := data1\<rparr>))"
      by (simp add: generate_result_flag init_def)
    moreover have "res_success (generate_result lib ((init tok)\<lparr>self_error := data1\<rparr>))
        \<longleftrightarrow> py_truthy (res_count (generate_result lib ((init tok)\<lparr>self_error := data1\<rparr>)))"
      by (simp add: generate_result_flag)
    ultimately show ?thesis
      using run_pair [of lib "init tok" w] f by (metis (no_types))
  next
    case False
    let ?s1 = "(init tok)\<lparr>self_access_token := a, self_new_refresh_token := fresh,
                           self_phone := u\<rparr>"
    from False h have f:
      "getitem_str data1 (asc ''access_token'') = Inr a"
      "getitem_str data1 (asc ''refresh_token'') = Inr fresh"
      "getitem_str data1 (asc ''user_name'') = Inr u"
      "sign_in_json lib w tok a = Inr data2"
      "sign_in_response_ok data2"
      by simp_all
    from False cr have nr: "code_rejected data1 = Inr False" by simp
    have rt: "read_token data1 (init tok) = Inr (True, ?s1)"
      using nr f(1,2,3) by (rule read_token_accepted)
    from read_sign_in_returns [OF f(5), of lib ?s1]
    obtain s2 where s2: "read_sign_in lib data2 ?s1 = Inr s2" ..
    from ex rt f(4) s2 have fr: "fst (run lib (init tok) w) = Inr (generate_result lib s2, s2)"
      by (simp add: run_fst init_refresh_token)
    have iff: "res_success (generate_result lib s2)
        \<longleftrightarrow> py_truthy (res_count (generate_result lib s2))"
      by (simp add: generate_result_flag)
    from sign_in_response_ok_present [OF f(5)]
    obtain present where p: "str_in (asc ''success'') data2 = Inr present" ..
    have "present" if "res_success (generate_result lib s2)"
    proof (rule ccontr)
      assume "\<not> present"
      with p have "str_in (asc ''success'') data2 = Inr False" by simp
      from read_sign_in_absent [OF this, of lib ?s1] s2 have "s2 = ?s1\<lparr>self_error := data2\<rparr>"
        by simp
      then have "\<not> res_success (generate_result lib s2)"
        by (simp add: generate_result_flag init_def)
      with that show False by simp
    qed
    with p have "res_success (generate_result lib s2) \<longrightarrow>
                 \<not> rejected \<and> str_in (asc ''success'') data2 = Inr True"
      using False by auto
    with iff fr show ?thesis
      using run_pair [of lib "init tok" w] by (metis (no_types))
  qed
next
  assume "exchange_json w tok = Inl e"
  then show "fst (run lib (init tok) w) = Inl e"
    by (simp add: run_fst init_refresh_token)
next
  assume "exchange_json w tok = Inr data1 \<and> read_token data1 (init tok) = Inl e"
  then show "fst (run lib (init tok) w) = Inl e"
    by (simp add: run_fst init_refresh_token)
next
  assume "exchange_json w tok = Inr data1 \<and> read_token data1 (init tok) = Inr (True, s1)
        \<and> sign_in_json lib w tok (self_access_token s1) = Inl e"
  then show "fst (run lib (init tok) w) = Inl e"
    by (simp add: run_fst init_refresh_token)
next
  assume "exchange_json w tok = Inr data1 \<and> read_token data1 (init tok) = Inr (True, s1)
        \<and> sign_in_json lib w tok (self_access_token s1) = Inr data2
        \<and> read_sign_in lib data2 s1 = Inl e"
  then show "fst (run lib (init tok) w) = Inl e"
    by (simp add: run_fst init_refresh_token)
qed

lemma example_read_token:
  "read_token (example_token_response fresh) (init tok)
   = Inr (True, (init tok)\<lparr>self_access_token := PStr (asc ''A1''),
                             self_new_refresh_token := PStr fresh,
                             self_phone := PStr (asc ''138'')\<rparr>)"
  by (rule read_token_accepted) (rule example_token_response_fields)+

text \<open>
  One session for each part: a month log signed, signed with a reward, missed; a
  transport that raises; a body that is not JSON; an exchange answer \<open>{}\<close>; a transport
  that raises on the sign-in call; a sign-in answer \<open>null\<close>.
\<close>

theorem run_returns_or_raises_witness:
  "(\<exists>r s w'. run example_lib (init (asc ''0123456789''))
       (example_world (example_token_response (asc ''R1''))
          (example_sign_in_response 2
             [example_day 1 ''normal'', example_reward_day 2 ''normal'',
              example_day 3 ''miss''])) = (Inr (r, s), w')
      \<and> (res_success r \<longleftrightarrow> py_truthy (res_count r)))
   \<and> fst (run example_lib (init (asc ''0123456789'')) failing_world) = Inl RequestException
   \<and> fst (run example_lib (init (asc ''0123456789'')) not_json_world) = Inl JSONDecodeError
   \<and> fst (run example_lib (init (asc ''0123456789'')) (example_world (PDict []) PNone))
       = Inl (KeyError (PStr (asc ''access_token'')))
   \<and> fst (run example_lib (init (asc ''0123456789''))
            (example_world_then_down (example_token_response (asc ''R1''))))
       = Inl RequestException
   \<and> fst (run example_lib (init (asc ''0123456789''))
            (example_world (example_token_response (asc ''R1'')) PNone))
       = Inl TypeError"
proof -
  let ?tok = "asc ''0123456789''"
  let ?t = "example_token_response (asc ''R1'')"
  let ?s1 = "(init ?tok)\<lparr>self_access_token := PStr (asc ''A1''),
                           self_new_refresh_token := PStr (asc ''R1''),
                           self_phone := PStr (asc ''138'')\<rparr>"
  let ?days = "[example_day 1 ''normal'', example_reward_day 2 ''normal'', example_day 3 ''miss'']"
  let ?data2 = "example_sign_in_response 2 ?days"
  have ok: "sign_in_response_ok ?data2"
    by (simp add: sign_in_response_ok_def example_sign_in_response_def has_key_def
        wellformed_day_def missed_day_def example_day_def example_reward_day_def asc_def)
  have acc: "self_access_token ?s1 = PStr (asc ''A1'')"
    by simp
  have a: "\<exists>r s w'. run example_lib (init ?tok) (example_world ?t ?data2) = (Inr (r, s), w')
             \<and> (res_success r \<longleftrightarrow> py_truthy (res_count r))"
    using run_returns_or_raises
      [where w = "example_world ?t ?data2" and tok = ?tok and ?data1.0 = ?t and rejected = False
         and a = "PStr (asc ''A1'')" and fresh = "PStr (asc ''R1'')" and u = "PStr (asc ''138'')"
         and lib = example_lib and ?data2.0 = ?data2]
      example_world_exchange_json [of ?t ?data2 ?tok]
      example_token_response_fields [of "asc ''R1''"]
      example_world_sign_in_json [of example_lib ?t ?data2 ?tok "PStr (asc ''A1'')"] ok
    by blast
  have "exchange_json failing_world ?tok = Inl RequestException"
    by (simp add: exchange_json_def failing_world_def)
  with run_returns_or_raises
      [where w = failing_world and tok = ?tok and lib = example_lib and e = RequestException]
  have b: "fst (run example_lib (init ?tok) failing_world) = Inl RequestException"
    by blast
  have "exchange_json not_json_world ?tok = Inl JSONDecodeError"
    by (simp add: exchange_json_def not_json_world_def)
  with run_returns_or_raises
      [where w = not_json_world and tok = ?tok and lib = example_lib and e = JSONDecodeError]
  have c: "fst (run example_lib (init ?tok) not_json_world) = Inl JSONDecodeError"
    by blast
  have "read_token (PDict []) (init ?tok) = Inl (KeyError (PStr (asc ''access_token'')))"
    by (simp add: read_token_def code_rejected_def)
  with run_returns_or_raises
      [where w = "example_world (PDict []) PNone" and tok = ?tok and lib = example_lib
         and ?data1.0 = "PDict []" and e = "KeyError (PStr (asc ''access_token''))"]
      example_world_exchange_json [of "PDict []" PNone ?tok]
  have d: "fst (run example_lib (init ?tok) (example_world (PDict []) PNone))
           = Inl (KeyError (PStr (asc ''access_token'')))"
    by blast
  have "exchange_json (example_world_then_down ?t) ?tok = Inr ?t"
    by (simp add: exchange_json_def example_world_then_down_def answer_def)
  moreover have "sign_in_json example_lib (example_world_then_down ?t) ?tok
      (self_access_token ?s1) = Inl RequestException"
    by (simp add: sign_in_json_def example_world_then_down_def)
  ultimately have e: "fst (run example_lib (init ?tok) (example_world_then_down ?t))
        = Inl RequestException"
    using run_returns_or_raises
      [where w = "example_world_then_down ?t" and tok = ?tok and lib = example_lib
         and ?data1.0 = ?t and ?s1.0 = ?s1 and e = RequestException]
      example_read_token [of "asc ''R1''" ?tok]
    by blast
  have "read_sign_in example_lib PNone ?s1 = Inl TypeError"
    by (simp add: read_sign_in_def)
  with run_returns_or_raises
      [where w = "example_world ?t PNone" and tok = ?tok and lib = example_lib
         and ?data1.0 = ?t and ?s1.0 = ?s1 and ?data2.0 = PNone and e = TypeError]
      example_world_exchange_json [of ?t PNone ?tok]
      example_read_token [of "asc ''R1''" ?tok]
      example_world_sign_in_json [of example_lib ?t PNone ?tok "self_access_token ?s1"]
  have f: "fst (run example_lib (init ?tok) (example_world ?t PNone)) = Inl TypeError"
    by blast
  from a b c d e f show ?thesis
    by blast
qed

text \<open>
  Claim C9. Whenever \<open>run\<close> returns, the result's \<open>count\<close> is the stored count and its
  \<open>success\<close> is the truth value of that count, which for an integer is \<open>count \<noteq> 0\<close>; a
  result without success carries the failure fragments. The stored count is the
  \<open>signInCount\<close> of the sign-in answer when the exchange was accepted and the sign-in
  answer contained \<open>'success'\<close>, so an answer that reports \<open>signInCount = 0\<close> gives a result
  without success; on the other two paths (sign-in answer without \<open>'success'\<close>, rejected
  credential) it is the count the object started with, which \<open>__init__\<close> sets to 0.
\<close>

theorem success_iff_count_nonzero:
  assumes "run lib self w = (Inr (r, s), w')"
  shows "res_count r = self_signin_count s
       \<and> (res_success r \<longleftrightarrow> py_truthy (res_count r))
       \<and> (\<forall>k. res_count r = PInt k \<longrightarrow> (res_success r \<longleftrightarrow> k \<noteq> 0))
       \<and> (\<not> res_success r \<longrightarrow>
            res_text r = asc ''['' @ py_str lib (res_user r) @ asc '']'' @ lit_failed
              @ json_dumps lib (self_error s)
            \<and> res_text_html r = asc ''<code>'' @ py_str lib (res_user r) @ asc ''</code>''
              @ lit_failed @ asc ''<code>'' @ json_dumps lib (self_error s) @ asc ''</code>'')
       \<and> (\<forall>data1 a data2 res n.
            exchange_json w (self_refresh_token self) = Inr data1
            \<and> code_rejected data1 = Inr False
            \<and> getitem_str data1 (asc ''access_token'') = Inr a
            \<and> sign_in_json lib w (self_refresh_token self) a = Inr data2
            \<and> str_in (asc ''success'') data2 = Inr True
            \<and> getitem_str data2 (asc ''result'') = Inr res
            \<and> getitem_str res (asc ''signInCount'') = Inr n
            \<longrightarrow> res_count r = n \<and> (res_success r \<longleftrightarrow> py_truthy n)
                \<and> (n = PInt 0 \<longrightarrow> \<not> res_success r))
       \<and> (\<forall>data1 a data2.
            exchange_json w (self_refresh_token self) = Inr data1
            \<and> code_rejected data1 = Inr False
            \<and> getitem_str data1 (asc ''access_token'') = Inr a
            \<and> sign_in_json lib w (self_refresh_token self) a = Inr data2
            \<and> str_in (asc ''success'') data2 = Inr False
            \<longrightarrow> res_count r = self_signin_count self)
       \<and> (\<forall>data1.
            exchange_json w (self_refresh_token self) = Inr data1
            \<and> code_rejected data1 = Inr True
            \<longrightarrow> res_count r = self_signin_count self)
       \<and> self_signin_count (init tok) = PInt 0"
proof -
  from assms have gen: "r = generate_result lib s"
    by (rule run_generated)
  from assms have ran: "fst (run lib self w) = Inr (r, s)"
    by simp
  have basic: "res_count r = self_signin_count s"
      "res_success r \<longleftrightarrow> py_truthy (res_count r)"
      "\<forall>k. res_count r = PInt k \<longrightarrow> (res_success r \<longleftrightarrow> k \<noteq> 0)"
      "\<not> res_success r \<longrightarrow>
            res_text r = asc ''['' @ py_str lib (res_user r) @ asc '']'' @ lit_failed
              @ json_dumps lib (self_error s)
            \<and> res_text_html r = asc ''<code>'' @ py_str lib (res_user r) @ asc ''</code>''
              @ lit_failed @ asc ''<code>'' @ json_dumps lib (self_error s) @ asc ''</code>''"
    using gen by (auto simp: generate_result_def Let_def)
  have signed: "res_count r = n \<and> (res_success r \<longleftrightarrow> py_truthy n)
                \<and> (n = PInt 0 \<longrightarrow> \<not> res_success r)"
    if h: "exchange_json w (self_refresh_token self) = Inr data1"
          "code_rejected data1 = Inr False"
          "getitem_str data1 (asc ''access_token'') = Inr a"
          "sign_in_json lib w (self_refresh_token self) a = Inr data2"
          "str_in (asc ''success'') data2 = Inr True"
          "getitem_str data2 (asc ''result'') = Inr res"
          "getitem_str res (asc ''signInCount'') = Inr n"
    for data1 a data2 res n
  proof -
    from ran h(1) obtain ok s1 where rt: "read_token data1 self = Inr (ok, s1)"
      by (cases "read_token data1 self") (auto simp: run_fst)
    from rt h(2) have ok: "ok"
      using read_token_False(1) [of data1 self s1] by (cases ok) auto
    with rt have rt': "read_token data1 self = Inr (True, s1)" by simp
    from read_token_True(2) [OF rt'] h(3) have a: "self_access_token s1 = a"
      by simp
    from ran h(1,4) rt' a obtain s2 where
      rs: "read_sign_in lib data2 s1 = Inr s2" and s2: "s2 = s"
      by (cases "read_sign_in lib data2 s1") (auto simp: run_fst)
    from read_sign_in_count(1) [OF rs h(5,6,7)] s2 have "self_signin_count s = n"
      by simp
    with basic show ?thesis by auto
  qed
  have absent: "res_count r = self_signin_count self"
    if h: "exchange_json w (self_refresh_token self) = Inr data1"
          "code_rejected data1 = Inr False"
          "getitem_str data1 (asc ''access_token'') = Inr a"
          "sign_in_json lib w (self_refresh_token self) a = Inr data2"
          "str_in (asc ''success'') data2 = Inr False"
    for data1 a data2
  proof -
    from ran h(1) obtain ok s1 where rt: "read_token data1 self = Inr (ok, s1)"
      by (cases "read_token data1 self") (auto simp: run_fst)
    from rt h(2) have ok: "ok"
      using read_token_False(1) [of data1 self s1] by (cases ok) auto
    with rt have rt': "read_token data1 self = Inr (True, s1)" by simp
    from read_token_True(2) [OF rt'] h(3) have a: "self_access_token s1 = a"
      by simp
    from ran h(1,4) rt' a have "s = s1\<lparr>self_error := data2\<rparr>"
      by (simp add: run_fst read_sign_in_absent [OF h(5)])
    with read_token_True(3) [OF rt'] basic(1) show ?thesis by simp
  qed
  have rejected: "res_count r = self_signin_count self"
    if h: "exchange_json w (self_refresh_token self) = Inr data1"
          "code_rejected data1 = Inr True"
    for data1
  proof -
    from ran h(1) obtain ok s1 where rt: "read_token data1 self = Inr (ok, s1)"
      by (cases "read_token data1 self") (auto simp: run_fst)
    from rt h(2) have ok: "\<not> ok"
      using read_token_True(1) [of data1 self s1] by (cases ok) auto
    with rt have rt': "read_token data1 self = Inr (False, s1)" by simp
    from ran h(1) rt' have "s = s1"
      by (simp add: run_fst)
    with read_token_False(2) [OF rt'] basic(1) show ?thesis by simp
  qed
  have "self_signin_count (init tok) = PInt 0"
    by (simp add: init_def)
  with basic signed absent rejected show ?thesis
    by blast
qed

text \<open>
  Two sessions whose exchange and sign-in both succeed: with \<open>signInCount = 0\<close> the
  result has no success and the failure fragment (\<open>error\<close> still \<open>None\<close>); with
  \<open>signInCount = 2\<close> the result has the count 2 and success.
\<close>

theorem count_witness:
  "(\<exists>r s w'. run example_lib (init (asc ''0123456789''))
       (example_world (example_token_response (asc ''R1''))
          (example_sign_in_response 0 [example_day 1 ''normal'', example_day 2 ''miss'']))
       = (Inr (r, s), w')
     \<and> res_count r = PInt 0
     \<and> \<not> res_success r
     \<and> res_text r = asc ''[138]'' @ lit_failed @ json_dumps example_lib PNone)
   \<and> (\<exists>r s w'. run example_lib (init (asc ''0123456789''))
       (example_world (example_token_response (asc ''R1''))
          (example_sign_in_response 2 [example_day 1 ''normal'', example_day 2 ''miss'']))
       = (Inr (r, s), w')
     \<and> res_count r = PInt 2
     \<and> res_success r)"
proof -
  let ?tok = "asc ''0123456789''"
  let ?days = "[example_day 1 ''normal'', example_day 2 ''miss'']"
  let ?w = "\<lambda>n. example_world (example_token_response (asc ''R1''))
                   (example_sign_in_response n ?days)"
  let ?s = "\<lambda>n. (init ?tok)\<lparr>self_access_token := PStr (asc ''A1''),
                        self_new_refresh_token := PStr (asc ''R1''),
                        self_phone := PStr (asc ''138''),
                        self_signin_count := PInt n,
                        self_signin_reward := PStr lit_no_reward\<rparr>"
  have link: "res_count (generate_result example_lib (?s n)) = PInt n
              \<and> (res_success (generate_result example_lib (?s n)) \<longleftrightarrow> py_truthy (PInt n))"
    for n
    using success_iff_count_nonzero [OF example_signed_run [of ?tok "asc ''R1''" n]]
      example_world_exchange_json [of "example_token_response (asc ''R1'')"
        "example_sign_in_response n ?days" ?tok]
      example_token_response_fields(1,2) [of "asc ''R1''"]
      example_world_sign_in_json [of example_lib "example_token_response (asc ''R1'')"
        "example_sign_in_response n ?days" ?tok "PStr (asc ''A1'')"]
      example_sign_in_response_fields [of n ?days]
    unfolding init_refresh_token
    by blast
  have zero: "res_count (generate_result example_lib (?s 0)) = PInt 0"
      "\<not> res_success (generate_result example_lib (?s 0))"
    using link [of 0] by simp_all
  have two: "res_count (generate_result example_lib (?s 2)) = PInt 2"
      "res_success (generate_result example_lib (?s 2))"
    using link [of 2] by simp_all
  have "res_text (generate_result example_lib (?s 0))
        = asc ''['' @ py_str example_lib (res_user (generate_result example_lib (?s 0)))
          @ asc '']'' @ lit_failed @ json_dumps example_lib (self_error (?s 0))"
    using success_iff_count_nonzero [OF example_signed_run [of ?tok "asc ''R1''" 0]] zero(2)
    by blast
  moreover have "res_user (generate_result example_lib (?s 0)) = PStr (asc ''138'')"
    by (simp add: generate_result_def py_or_def asc_def)
  moreover have "self_error (?s 0) = PNone"
    by (simp add: init_def)
  ultimately have tx: "res_text (generate_result example_lib (?s 0))
        = asc ''[138]'' @ lit_failed @ json_dumps example_lib PNone"
    by (simp add: asc_def)
  from example_signed_run [of ?tok "asc ''R1''" 0] zero tx
       example_signed_run [of ?tok "asc ''R1''" 2] two
  show ?thesis
    by blast
qed

section \<open>Dispatching to the channels\<close>

lemma run_pushers_apply_each:
  "run_pushers ps cs config content content_html title w =
   apply_each (filter (\<lambda>np. fst np \<in> set cs) ps) config content content_html title w"
proof (induction ps arbitrary: w)
  case Nil
  then show ?case by simp
next
  case (Cons np ps)
  obtain n p where np: "np = (n, p)" by (cases np)
  show ?case
    unfolding np using Cons.IH
    by (auto split: prod.splits sum.splits)
qed

lemma pushers_known: "map fst (pushers lib mods) = known_channels"
  by (simp add: pushers_def known_channels_def)

lemma known_channels_distinct: "distinct known_channels"
  by (simp add: known_channels_def asc_def)

lemma filter_by_name:
  "distinct (map fst ps) \<Longrightarrow>
   filter (\<lambda>np. P (fst np)) ps = map (\<lambda>n. (n, the (map_of ps n))) (filter P (map fst ps))"
proof (induction ps)
  case Nil
  then show ?case by simp
next
  case (Cons np ps)
  obtain n p where np: "np = (n, p)" by (cases np)
  from Cons.prems np have d: "distinct (map fst ps)" and notin: "n \<notin> fst ` set ps"
    by simp_all
  have same: "map (\<lambda>m. (m, the (map_of (np # ps) m))) (filter P (map fst ps))
            = map (\<lambda>m. (m, the (map_of ps m))) (filter P (map fst ps))"
    using notin np by (intro map_cong) auto
  from Cons.IH [OF d] same np show ?case
    by simp
qed

lemma push_as_apply_each:
  assumes "configured_push_types lib config = Inr cs"
  shows "push lib mods config content content_html title w =
         (case apply_each (filter (\<lambda>np. fst np \<in> set cs) (pushers lib mods))
                 config content content_html title w of
            (Inl e, w') \<Rightarrow> (Inl e, w')
          | (Inr outs, w') \<Rightarrow> (Inr PNone, w'))"
  using assms by (simp add: push_def run_pushers_apply_each)

lemma enabled_pushers:
  "filter (\<lambda>np. fst np \<in> set cs) (pushers lib mods) =
   map (\<lambda>n. (n, the (map_of (pushers lib mods) n))) (filter (\<lambda>n. n \<in> set cs) known_channels)"
  using filter_by_name [of "pushers lib mods" "\<lambda>n. n \<in> set cs"] known_channels_distinct
  by (simp add: pushers_known)

lemma map_of_pushers:
  "map_of (pushers lib mods) (asc ''telegram'') = Some (telegram_push lib)"
  "map_of (pushers lib mods) (asc ''pushplus'') = Some pushplus_push"
  by (simp_all add: pushers_def asc_def)

lemma map_of_pushers_member:
  "(n, p) \<in> set (pushers lib mods) \<Longrightarrow> map_of (pushers lib mods) n = Some p"
  by (rule map_of_is_SomeI) (simp_all add: pushers_known known_channels_distinct)

text \<open>
  Claim C2, as amended. Once the enabled names are read from the config, \<open>push\<close> is the
  in-order application of the \<open>push\<close> of exactly the known channels whose name is among
  the enabled names, each in the world the one before left, with the values they return
  dropped: it returns \<open>None\<close>, not a mapping, and when one of these calls raises it stops
  there and raises that exception. With telegram and pushplus as the enabled known
  channels, \<open>push\<close> is telegram's \<open>push\<close> followed by pushplus's \<open>push\<close>.
\<close>

theorem push_applies_enabled_channels:
  assumes "configured_push_types lib config = Inr cs"
  shows "push lib mods config content content_html title w =
           (case apply_each (filter (\<lambda>np. fst np \<in> set cs) (pushers lib mods))
                   config content content_html title w of
              (Inl e, w') \<Rightarrow> (Inl e, w')
            | (Inr outs, w') \<Rightarrow> (Inr PNone, w'))
       \<and> map fst (pushers lib mods) = known_channels
       \<and> (filter (\<lambda>n. n \<in> set cs) known_channels = [asc ''telegram'', asc ''pushplus''] \<longrightarrow>
            push lib mods config content content_html title w =
              (case telegram_push lib config content content_html title w of
                 (Inl e, w1) \<Rightarrow> (Inl e, w1)
               | (Inr v1, w1) \<Rightarrow>
                   (case pushplus_push config content content_html title w1 of
                      (Inl e, w2) \<Rightarrow> (Inl e, w2)
                    | (Inr v2, w2) \<Rightarrow> (Inr PNone, w2))))"
proof (intro conjI impI)
  show "push lib mods config content content_html title w =
           (case apply_each (filter (\<lambda>np. fst np \<in> set cs) (pushers lib mods))
                   config content content_html title w of
              (Inl e, w') \<Rightarrow> (Inl e, w')
            | (Inr outs, w') \<Rightarrow> (Inr PNone, w'))"
    using assms by (rule push_as_apply_each)
  show "map fst (pushers lib mods) = known_channels"
    by (rule pushers_known)
  assume "filter (\<lambda>n. n \<in> set cs) known_channels = [asc ''telegram'', asc ''pushplus'']"
  then have "filter (\<lambda>np. fst np \<in> set cs) (pushers lib mods) =
             [(asc ''telegram'', telegram_push lib), (asc ''pushplus'', pushplus_push)]"
    by (simp add: enabled_pushers map_of_pushers)
  then show "push lib mods config content content_html title w =
              (case telegram_push lib config content content_html title w of
                 (Inl e, w1) \<Rightarrow> (Inl e, w1)
               | (Inr v1, w1) \<Rightarrow>
                   (case pushplus_push config content content_html title w1 of
                      (Inl e, w2) \<Rightarrow> (Inl e, w2)
                    | (Inr v2, w2) \<Rightarrow> (Inr PNone, w2)))"
    using push_as_apply_each [OF assms, of mods content content_html title w]
    by (auto split: prod.splits sum.splits)
qed

text \<open>
  Claim C8, as amended. The loop of \<open>push\<close> is the in-order application of the \<open>push\<close> of
  the enabled known channels, and that list holds every known channel at most once,
  namely when its name occurs in the enabled names, however often. When the enabled names
  select a single known channel, named once or several times, \<open>push\<close> is one application
  of that channel's \<open>push\<close>.
\<close>

theorem enabled_channel_applied_once:
  assumes "configured_push_types lib config = Inr cs"
  shows "run_pushers (pushers lib mods) cs config content content_html title w
           = apply_each (filter (\<lambda>np. fst np \<in> set cs) (pushers lib mods))
               config content content_html title w
       \<and> distinct (map fst (filter (\<lambda>np. fst np \<in> set cs) (pushers lib mods)))
       \<and> map fst (filter (\<lambda>np. fst np \<in> set cs) (pushers lib mods))
           = filter (\<lambda>n. n \<in> set cs) known_channels
       \<and> (\<forall>n p. (n, p) \<in> set (pushers lib mods)
              \<and> filter (\<lambda>m. m \<in> set cs) known_channels = [n] \<longrightarrow>
            push lib mods config content content_html title w =
              (case p config content content_html title w of
                 (Inl e, w1) \<Rightarrow> (Inl e, w1)
               | (Inr v, w1) \<Rightarrow> (Inr PNone, w1)))"
proof (intro conjI allI impI)
  show "run_pushers (pushers lib mods) cs config content content_html title w
           = apply_each (filter (\<lambda>np. fst np \<in> set cs) (pushers lib mods))
               config content content_html title w"
    by (rule run_pushers_apply_each)
  have names: "map fst (filter (\<lambda>np. fst np \<in> set cs) (pushers lib mods))
           = filter (\<lambda>n. n \<in> set cs) known_channels"
    by (simp add: enabled_pushers comp_def)
  show "map fst (filter (\<lambda>np. fst np \<in> set cs) (pushers lib mods))
           = filter (\<lambda>n. n \<in> set cs) known_channels"
    by (rule names)
  show "distinct (map fst (filter (\<lambda>np. fst np \<in> set cs) (pushers lib mods)))"
    unfolding names using known_channels_distinct by simp
next
  fix n p
  assume "(n, p) \<in> set (pushers lib mods)
              \<and> filter (\<lambda>m. m \<in> set cs) known_channels = [n]"
  then have m: "map_of (pushers lib mods) n = Some p"
    and f: "filter (\<lambda>m. m \<in> set cs) known_channels = [n]"
    by (simp_all add: map_of_pushers_member)
  have "filter (\<lambda>np. fst np \<in> set cs) (pushers lib mods) = [(n, p)]"
    unfolding enabled_pushers f by (simp add: m)
  then show "push lib mods config content content_html title w =
              (case p config content content_html title w of
                 (Inl e, w1) \<Rightarrow> (Inl e, w1)
               | (Inr v, w1) \<Rightarrow> (Inr PNone, w1))"
    using push_as_apply_each [OF assms, of mods content content_html title w]
    by (auto split: prod.splits sum.splits)
qed

lemmas channel_defs =
  telegram_push_def telegram_incomplete_def telegram_try_def telegram_send_def
  telegram_request_def pushplus_push_def pushplus_send_def pushplus_request_def post_def

lemma example_configured:
  "configured_push_types example_lib (example_config (PList [PStr (asc ''telegram''), PStr (asc ''pushplus'')]))
   = Inr [asc ''telegram'', asc ''pushplus'']"
  "configured_push_types example_lib (example_config (PList [PStr (asc ''telegram''), PStr (asc ''telegram'')]))
   = Inr [asc ''telegram'', asc ''telegram'']"
  by (simp_all add: configured_push_types_def example_config_def example_lib_def
      ascii_lower_def ascii_strip_def ascii_space_def asc_def)

text \<open>
  Claim C2 as stated fails: with telegram and pushplus enabled and both sends answered,
  \<open>push\<close> returns \<open>None\<close>, not a mapping with the two channel names as keys.
\<close>

theorem push_returns_none_not_mapping:
  "fst (push example_lib example_modules
          (example_config (PList [PStr (asc ''telegram''), PStr (asc ''pushplus'')]))
          (asc ''text'') (asc ''<i>text</i>'') (PStr (asc ''title''))
          (status_world 200 (PDict [])))
   = Inr PNone
   \<and> fst (push example_lib example_modules
          (example_config (PList [PStr (asc ''telegram''), PStr (asc ''pushplus'')]))
          (asc ''text'') (asc ''<i>text</i>'') (PStr (asc ''title''))
          (status_world 200 (PDict [])))
   \<noteq> Inr (PDict [(asc ''telegram'', PBool True), (asc ''pushplus'', PBool True)])"
  unfolding push_def example_configured
  by (simp add: pushers_def channel_defs example_config_def example_modules_def
      status_world_def answer_def asc_def)

text \<open>
  Claim C8 as stated fails: with \<open>push_types = ['telegram', 'telegram']\<close> a single request
  is sent to Telegram.
\<close>

theorem duplicate_name_calls_channel_once:
  "map url (calls (snd (push example_lib example_modules
          (example_config (PList [PStr (asc ''telegram''), PStr (asc ''telegram'')]))
          (asc ''text'') (asc ''<i>text</i>'') (PStr (asc ''title''))
          (status_world 200 (PDict [])))))
   = [asc ''https://api.telegram.org/botT/sendMessage'']"
  unfolding push_def example_configured
  by (simp add: pushers_def channel_defs example_config_def example_modules_def
      status_world_def answer_def asc_def)

text \<open>
  Claim C7 as stated fails for a non-success HTTP response: pushplus never reads the
  status code, so an answer with status 500 and a JSON body makes its \<open>push\<close> return
  \<open>True\<close>.
\<close>

theorem pushplus_ignores_status:
  "fst (pushplus_push (example_config PNone) (asc ''text'') (asc ''<i>text</i>'')
          (PStr (asc ''title'')) (status_world 500 (PDict [(asc ''msg'', PStr (asc ''error''))])))
   = Inr (PBool True)"
  by (simp add: channel_defs example_config_def status_world_def answer_def asc_def)

lemma telegram_try_down:
  assumes "\<forall>req. net w (calls w) req = Inl err"
  shows "\<exists>e w1. telegram_try lib config content content_html title w = (Inl e, w1)"
  using assms
  by (auto simp: telegram_try_def telegram_send_def post_def bind_exn_case split: sum.splits)

lemma telegram_push_down:
  assumes "\<forall>req. net w (calls w) req = Inl err"
    and "telegram_incomplete config = Inr False"
  shows "\<exists>w1. telegram_push lib config content content_html title w = (Inr (PBool False), w1)"
proof -
  from telegram_try_down [OF assms(1)] obtain e w1 where
    "telegram_try lib config content content_html title w = (Inl e, w1)" by blast
  with assms(2) show ?thesis
    by (simp add: telegram_push_def)
qed

lemma pushplus_push_down:
  assumes "\<forall>req. net w (calls w) req = Inl err"
    and "getitem_str config (asc ''pushplus_token'') = Inr token"
    and "py_truthy token"
  shows "\<exists>w1. pushplus_push config content content_html title w = (Inr (PBool False), w1)"
  using assms by (simp add: pushplus_push_def pushplus_send_def post_def)

lemma run_pushers_continue:
  assumes "p config content content_html title w = (Inr v, w1)"
    and "n \<in> set cs"
  shows "run_pushers ((n, p) # rest) cs config content content_html title w =
         (case run_pushers rest cs config content content_html title w1 of
            (Inl e, w2) \<Rightarrow> (Inl e, w2)
          | (Inr outs, w2) \<Rightarrow> (Inr ((n, v) # outs), w2))"
  using assms by simp

text \<open>
  Claim C7, as amended. When the transport raises on every request, the \<open>push\<close> of the
  telegram channel (with its three settings present and truthy) and the \<open>push\<close> of the
  pushplus channel (with a truthy token) return \<open>False\<close> and raise nothing, and the
  dispatcher's loop goes on with the remaining channels from the world that the failed
  channel left.
\<close>

theorem transport_error_reported_false:
  assumes "\<forall>req. net w (calls w) req = Inl err"
  shows "(telegram_incomplete config = Inr False \<longrightarrow>
            (\<exists>w1. telegram_push lib config content content_html title w = (Inr (PBool False), w1)
               \<and> (asc ''telegram'' \<in> set cs \<longrightarrow>
                    run_pushers ((asc ''telegram'', telegram_push lib) # rest) cs
                      config content content_html title w =
                    (case run_pushers rest cs config content content_html title w1 of
                       (Inl e, w2) \<Rightarrow> (Inl e, w2)
                     | (Inr outs, w2) \<Rightarrow> (Inr ((asc ''telegram'', PBool False) # outs), w2)))))
       \<and> (\<forall>token. getitem_str config (asc ''pushplus_token'') = Inr token \<and> py_truthy token \<longrightarrow>
            (\<exists>w1. pushplus_push config content content_html title w = (Inr (PBool False), w1)
               \<and> (asc ''pushplus'' \<in> set cs \<longrightarrow>
                    run_pushers ((asc ''pushplus'', pushplus_push) # rest) cs
                      config content content_html title w =
                    (case run_pushers rest cs config content content_html title w1 of
                       (Inl e, w2) \<Rightarrow> (Inl e, w2)
                     | (Inr outs, w2) \<Rightarrow> (Inr ((asc ''pushplus'', PBool False) # outs), w2)))))"
proof (intro conjI impI allI)
  assume "telegram_incomplete config = Inr False"
  from telegram_push_down [OF assms this] obtain w1 where
    t: "telegram_push lib config content content_html title w = (Inr (PBool False), w1)"
    by blast
  show "\<exists>w1. telegram_push lib config content content_html title w = (Inr (PBool False), w1)
          \<and> (asc ''telegram'' \<in> set cs \<longrightarrow>
               run_pushers ((asc ''telegram'', telegram_push lib) # rest) cs
                 config content content_html title w =
               (case run_pushers rest cs config content content_html title w1 of
                  (Inl e, w2) \<Rightarrow> (Inl e, w2)
                | (Inr outs, w2) \<Rightarrow> (Inr ((asc ''telegram'', PBool False) # outs), w2)))"
    using t run_pushers_continue
      [where p = "telegram_push lib" and n = "asc ''telegram''" and cs = cs and rest = rest, OF t]
    by blast
next
  fix token
  assume "getitem_str config (asc ''pushplus_token'') = Inr token \<and> py_truthy token"
  then have "getitem_str config (asc ''pushplus_token'') = Inr token" "py_truthy token"
    by simp_all
  from pushplus_push_down [OF assms this] obtain w1 where
    t: "pushplus_push config content content_html title w = (Inr (PBool False), w1)"
    by blast
  show "\<exists>w1. pushplus_push config content content_html title w = (Inr (PBool False), w1)
          \<and> (asc ''pushplus'' \<in> set cs \<longrightarrow>
               run_pushers ((asc ''pushplus'', pushplus_push) # rest) cs
                 config content content_html title w =
               (case run_pushers rest cs config content content_html title w1 of
                  (Inl e, w2) \<Rightarrow> (Inl e, w2)
                | (Inr outs, w2) \<Rightarrow> (Inr ((asc ''pushplus'', PBool False) # outs), w2)))"
    using t run_pushers_continue
      [where p = pushplus_push and n = "asc ''pushplus''" and cs = cs and rest = rest, OF t]
    by blast
qed

text \<open>
  In a world where every request raises, with telegram and pushplus enabled, the loop
  calls both channels and both return \<open>False\<close>.
\<close>

theorem transport_error_witness:
  "\<exists>w'. run_pushers
          [(asc ''telegram'', telegram_push example_lib), (asc ''pushplus'', pushplus_push)]
          [asc ''telegram'', asc ''pushplus'']
          (example_config PNone) (asc ''text'') (asc ''<i>text</i>'') (PStr (asc ''title''))
          failing_world
        = (Inr [(asc ''telegram'', PBool False), (asc ''pushplus'', PBool False)], w')"
proof -
  let ?cfg = "example_config PNone"
  let ?cs = "[asc ''telegram'', asc ''pushplus'']"
  have tg: "telegram_incomplete ?cfg = Inr False"
    by (simp add: telegram_incomplete_def example_config_def asc_def)
  have pp: "getitem_str ?cfg (asc ''pushplus_token'') = Inr (PStr (asc ''P''))
            \<and> py_truthy (PStr (asc ''P''))"
    by (simp add: example_config_def asc_def)
  have m: "asc ''telegram'' \<in> set ?cs" "asc ''pushplus'' \<in> set ?cs"
    by simp_all
  have down: "\<forall>req. net failing_world (calls failing_world) req = Inl RequestException"
    by (simp add: failing_world_def)
  from transport_error_reported_false
    [OF down, of ?cfg example_lib "asc ''text''" "asc ''<i>text</i>''" "PStr (asc ''title'')"
       ?cs "[(asc ''pushplus'', pushplus_push)]"] tg m(1)
  obtain w1 where
    t: "telegram_push example_lib ?cfg (asc ''text'') (asc ''<i>text</i>'') (PStr (asc ''title''))
          failing_world = (Inr (PBool False), w1)" and
    r1: "run_pushers [(asc ''telegram'', telegram_push example_lib), (asc ''pushplus'', pushplus_push)]
           ?cs ?cfg (asc ''text'') (asc ''<i>text</i>'') (PStr (asc ''title'')) failing_world =
         (case run_pushers [(asc ''pushplus'', pushplus_push)] ?cs ?cfg (asc ''text'')
                 (asc ''<i>text</i>'') (PStr (asc ''title'')) w1 of
            (Inl e, w2) \<Rightarrow> (Inl e, w2)
          | (Inr outs, w2) \<Rightarrow> (Inr ((asc ''telegram'', PBool False) # outs), w2))"
    by blast
  have "net w1 = net failing_world"
    using t by (auto simp: channel_defs example_config_def failing_world_def asc_def
        split: sum.splits)
  then have down1: "\<forall>req. net w1 (calls w1) req = Inl RequestException"
    by (simp add: failing_world_def)
  from transport_error_reported_false
    [OF down1, of ?cfg example_lib "asc ''text''" "asc ''<i>text</i>''" "PStr (asc ''title'')"
       ?cs "[]"] pp m(2)
  obtain w2 where
    r2: "run_pushers [(asc ''pushplus'', pushplus_push)] ?cs ?cfg (asc ''text'')
           (asc ''<i>text</i>'') (PStr (asc ''title'')) w1 =
         (case run_pushers [] ?cs ?cfg (asc ''text'') (asc ''<i>text</i>'')
                 (PStr (asc ''title'')) w2 of
            (Inl e, w3) \<Rightarrow> (Inl e, w3)
          | (Inr outs, w3) \<Rightarrow> (Inr ((asc ''pushplus'', PBool False) # outs), w3))"
    by blast
  show ?thesis
    unfolding r1 r2 by simp
qed

text \<open>
  With telegram and pushplus enabled and every request answered, \<open>push\<close> returns \<open>None\<close>
  after one request to each of the two services.
\<close>

theorem push_two_channels_witness:
  "\<exists>w'. push example_lib example_modules
          (example_config (PList [PStr (asc ''telegram''), PStr (asc ''pushplus'')]))
          (asc ''text'') (asc ''<i>text</i>'') (PStr (asc ''title''))
          (status_world 200 (PDict [])) = (Inr PNone, w')
        \<and> map url (calls w') =
            [asc ''https://api.telegram.org/botT/sendMessage'',
             asc ''http://www.pushplus.plus/send'']"
proof -
  let ?cfg = "example_config (PList [PStr (asc ''telegram''), PStr (asc ''pushplus'')])"
  let ?w = "status_world 200 (PDict [])"
  have f: "filter (\<lambda>n. n \<in> set [asc ''telegram'', asc ''pushplus'']) known_channels
           = [asc ''telegram'', asc ''pushplus'']"
    by (simp add: known_channels_def asc_def)
  from push_applies_enabled_channels [OF example_configured(1), of example_modules
      "asc ''text''" "asc ''<i>text</i>''" "PStr (asc ''title'')" ?w] f
  have eq: "push example_lib example_modules ?cfg (asc ''text'') (asc ''<i>text</i>'')
              (PStr (asc ''title'')) ?w =
            (case telegram_push example_lib ?cfg (asc ''text'') (asc ''<i>text</i>'')
                    (PStr (asc ''title'')) ?w of
               (Inl e, w1) \<Rightarrow> (Inl e, w1)
             | (Inr v1, w1) \<Rightarrow>
                 (case pushplus_push ?cfg (asc ''text'') (asc ''<i>text</i>'')
                         (PStr (asc ''title'')) w1 of
                    (Inl e, w2) \<Rightarrow> (Inl e, w2)
                  | (Inr v2, w2) \<Rightarrow> (Inr PNone, w2)))"
    by blast
  have "\<exists>w'. (case telegram_push example_lib ?cfg (asc ''text'') (asc ''<i>text</i>'')
                    (PStr (asc ''title'')) ?w of
               (Inl e, w1) \<Rightarrow> (Inl e, w1)
             | (Inr v1, w1) \<Rightarrow>
                 (case pushplus_push ?cfg (asc ''text'') (asc ''<i>text</i>'')
                         (PStr (asc ''title'')) w1 of
                    (Inl e, w2) \<Rightarrow> (Inl e, w2)
                  | (Inr v2, w2) \<Rightarrow> (Inr PNone, w2))) = (Inr PNone, w')
        \<and> map url (calls w') =
            [asc ''https://api.telegram.org/botT/sendMessage'',
             asc ''http://www.pushplus.plus/send'']"
    by (simp add: channel_defs example_config_def example_lib_def status_world_def answer_def
        asc_def)
  then show ?thesis
    unfolding eq .
qed

text \<open>
  With telegram named twice, \<open>push\<close> returns \<open>None\<close> after a single request to Telegram.
\<close>

theorem duplicate_name_witness:
  "\<exists>w'. push example_lib example_modules
          (example_config (PList [PStr (asc ''telegram''), PStr (asc ''telegram'')]))
          (asc ''text'') (asc ''<i>text</i>'') (PStr (asc ''title''))
          (status_world 200 (PDict [])) = (Inr PNone, w')
        \<and> map url (calls w') = [asc ''https://api.telegram.org/botT/sendMessage'']"
proof -
  let ?cfg = "example_config (PList [PStr (asc ''telegram''), PStr (asc ''telegram'')])"
  let ?w = "status_world 200 (PDict [])"
  have f: "filter (\<lambda>m. m \<in> set [asc ''telegram'', asc ''telegram'']) known_channels
           = [asc ''telegram'']"
    by (simp add: known_channels_def asc_def)
  have m: "(asc ''telegram'', telegram_push example_lib)
           \<in> set (pushers example_lib example_modules)"
    by (simp add: pushers_def)
  from enabled_channel_applied_once [OF example_configured(2), of example_modules
      "asc ''text''" "asc ''<i>text</i>''" "PStr (asc ''title'')" ?w] f m
  have eq: "push example_lib example_modules ?cfg (asc ''text'') (asc ''<i>text</i>'')
              (PStr (asc ''title'')) ?w =
            (case telegram_push example_lib ?cfg (asc ''text'') (asc ''<i>text</i>'')
                    (PStr (asc ''title'')) ?w of
               (Inl e, w1) \<Rightarrow> (Inl e, w1)
             | (Inr v, w1) \<Rightarrow> (Inr PNone, w1))"
    by blast
  have "\<exists>w'. (case telegram_push example_lib ?cfg (asc ''text'') (asc ''<i>text</i>'')
                    (PStr (asc ''title'')) ?w of
               (Inl e, w1) \<Rightarrow> (Inl e, w1)
             | (Inr v, w1) \<Rightarrow> (Inr PNone, w1)) = (Inr PNone, w')
        \<and> map url (calls w') = [asc ''https://api.telegram.org/botT/sendMessage'']"
    by (simp add: channel_defs example_config_def example_lib_def status_world_def answer_def
        asc_def)
  then show ?thesis
    unfolding eq .
qed

end
